theory Spec2Isabelle
  imports Complex_Main "HOL-Library.Sublist"
begin

text \<open>
  A model of \<open>script.js\<close>, the research agent of the repository
  ai-research-agent-vanilla: the class \<open>MockAPIService\<close> with its two catalogs, and
  the class \<open>AIResearchAgent\<close> with its five-step workflow, its history and the
  history's copy in local storage. What the code does to the document (the DOM) is left
  out, except for the disabled state of the form and the alerts. Asynchronous functions
  are cut at their \<open>await\<close>s where another task of the page can observe or change
  the state in between.
\<close>

section \<open>Platform functions used by script.js\<close>

text \<open>
  Strings are lists of 8-bit characters. \<open>toLowerCase\<close> folds the ASCII letters,
  \<open>str_includes\<close> is \<open>String.prototype.includes\<close>, \<open>split_on\<close> is
  \<open>String.prototype.split\<close> with a one-character separator (so two separators in
  a row give an empty piece, and the empty string gives one empty piece), and
  \<open>trim\<close> removes the ASCII white space at both ends.
\<close>

definition lower_char :: "char \<Rightarrow> char" where
  "lower_char c =
     (let n = (of_char c :: nat) in if 65 \<le> n \<and> n \<le> 90 then char_of (n + 32) else c)"

definition toLowerCase :: "string \<Rightarrow> string" where
  "toLowerCase s = map lower_char s"

fun startsWith :: "string \<Rightarrow> string \<Rightarrow> bool" where
  "startsWith s [] = True"
| "startsWith [] (p # ps) = False"
| "startsWith (c # cs) (p # ps) = (c = p \<and> startsWith cs ps)"

fun str_includes :: "string \<Rightarrow> string \<Rightarrow> bool" where
  "str_includes [] sub = (sub = [])"
| "str_includes (c # cs) sub = (startsWith (c # cs) sub \<or> str_includes cs sub)"

fun split_on :: "char \<Rightarrow> string \<Rightarrow> string list" where
  "split_on d [] = [[]]"
| "split_on d (c # cs) =
     (if c = d then [] # split_on d cs
      else (case split_on d cs of [] \<Rightarrow> [[c]] | w # ws \<Rightarrow> (c # w) # ws))"

definition is_space :: "char \<Rightarrow> bool" where
  "is_space c = (let n = (of_char c :: nat) in n = 32 \<or> (9 \<le> n \<and> n \<le> 13))"

definition trim :: "string \<Rightarrow> string" where
  "trim s = rev (dropWhile is_space (rev (dropWhile is_space s)))"

text \<open>Decimal rendering of a number inside a template string.\<close>

definition digit_char :: "nat \<Rightarrow> char" where
  "digit_char d = char_of (48 + d)"

fun show_nat :: "nat \<Rightarrow> string" where
  "show_nat n = (if n < 10 then [digit_char n] else show_nat (n div 10) @ [digit_char (n mod 10)])"

declare show_nat.simps [simp del]

definition show_int :: "int \<Rightarrow> string" where
  "show_int i = (if i < 0 then CHR ''-'' # show_nat (nat (- i)) else show_nat (nat i))"

text \<open>
  \<open>Array.prototype.sort\<close> with a comparator: the sort is stable, an element \<open>a\<close>
  stays before a later \<open>b\<close> unless \<open>cmp a b > 0\<close>. Insertion from the right
  computes that order.
\<close>

fun insert_by :: "('a \<Rightarrow> 'a \<Rightarrow> real) \<Rightarrow> 'a \<Rightarrow> 'a list \<Rightarrow> 'a list" where
  "insert_by cmp x [] = [x]"
| "insert_by cmp x (y # ys) = (if cmp x y \<le> 0 then x # y # ys else y # insert_by cmp x ys)"

definition sort_by :: "('a \<Rightarrow> 'a \<Rightarrow> real) \<Rightarrow> 'a list \<Rightarrow> 'a list" where
  "sort_by cmp xs = foldr (insert_by cmp) xs []"

text \<open>\<open>slice(0, n)\<close>; an undefined end (\<open>None\<close>) keeps the whole array.\<close>

definition slice0 :: "'a list \<Rightarrow> nat option \<Rightarrow> 'a list" where
  "slice0 xs n = (case n of None \<Rightarrow> xs | Some k \<Rightarrow> take k xs)"

text \<open>\<open>[...new Set(xs)]\<close>: the distinct elements in the order of their first occurrence.\<close>

fun uniq_acc :: "'a list \<Rightarrow> 'a list \<Rightarrow> 'a list" where
  "uniq_acc seen [] = []"
| "uniq_acc seen (x # xs) = (if x \<in> set seen then uniq_acc seen xs else x # uniq_acc (seen @ [x]) xs)"

definition uniqueSet :: "'a list \<Rightarrow> 'a list" where
  "uniqueSet xs = uniq_acc [] xs"

section \<open>MockAPIService\<close>

record article =
  title :: string
  summary :: string
  url :: string
  source :: string
  relevance :: real

definition generateWikipediaData :: "article list" where
  "generateWikipediaData = [
     \<lparr>title = ''Artificial Intelligence'',
      summary = ''Artificial intelligence (AI) is intelligence demonstrated by machines, in contrast to the natural intelligence displayed by humans and animals.'',
      url = ''https://en.wikipedia.org/wiki/Artificial_intelligence'',
      source = ''Wikipedia'', relevance = 0.95\<rparr>,
     \<lparr>title = ''Machine Learning'',
      summary = ''Machine learning (ML) is a type of artificial intelligence that allows software applications to become more accurate at predicting outcomes.'',
      url = ''https://en.wikipedia.org/wiki/Machine_learning'',
      source = ''Wikipedia'', relevance = 0.92\<rparr>,
     \<lparr>title = ''Deep Learning'',
      summary = ''Deep learning is part of a broader family of machine learning methods based on artificial neural networks with representation learning.'',
      url = ''https://en.wikipedia.org/wiki/Deep_learning'',
      source = ''Wikipedia'', relevance = 0.88\<rparr>,
     \<lparr>title = ''Natural Language Processing'',
      summary = ''Natural language processing (NLP) is a subfield of linguistics, computer science, and artificial intelligence concerned with interactions between computers and human language.'',
      url = ''https://en.wikipedia.org/wiki/Natural_language_processing'',
      source = ''Wikipedia'', relevance = 0.85\<rparr>,
     \<lparr>title = ''Computer Vision'',
      summary = ''Computer vision is an interdisciplinary scientific field that deals with how computers can gain high-level understanding from digital images or videos.'',
      url = ''https://en.wikipedia.org/wiki/Computer_vision'',
      source = ''Wikipedia'', relevance = 0.82\<rparr>,
     \<lparr>title = ''Neural Network'',
      summary = ''A neural network is a network or circuit of neurons, or in a modern sense, an artificial neural network, composed of artificial neurons or nodes.'',
      url = ''https://en.wikipedia.org/wiki/Neural_network'',
      source = ''Wikipedia'', relevance = 0.80\<rparr>,
     \<lparr>title = ''Data Science'',
      summary = ''Data science is an inter-disciplinary field that uses scientific methods, processes, algorithms and systems to extract knowledge and insights from data.'',
      url = ''https://en.wikipedia.org/wiki/Data_science'',
      source = ''Wikipedia'', relevance = 0.78\<rparr>,
     \<lparr>title = ''Robotics'',
      summary = ''Robotics is an interdisciplinary research area at the interface of computer science and engineering that deals with the design, construction, operation, and use of robots.'',
      url = ''https://en.wikipedia.org/wiki/Robotics'',
      source = ''Wikipedia'', relevance = 0.75\<rparr>,
     \<lparr>title = ''Blockchain Technology'',
      summary = ''A blockchain is a growing list of records, called blocks, that are linked and secured using cryptography for secure and transparent transactions.'',
      url = ''https://en.wikipedia.org/wiki/Blockchain'',
      source = ''Wikipedia'', relevance = 0.70\<rparr>,
     \<lparr>title = ''Internet of Things'',
      summary = ''The Internet of things (IoT) describes the network of physical objects that are embedded with sensors, software, and other technologies for connecting and exchanging data.'',
      url = ''https://en.wikipedia.org/wiki/Internet_of_things'',
      source = ''Wikipedia'', relevance = 0.68\<rparr>]"

definition generateHackerNewsData :: "article list" where
  "generateHackerNewsData = [
     \<lparr>title = ''The Future of AI in Healthcare'',
      summary = ''Discussion about how artificial intelligence is revolutionizing medical diagnosis, treatment planning, and patient care across various healthcare sectors.'',
      url = ''https://news.ycombinator.com/item?id=12345'',
      source = ''HackerNews'', relevance = 0.90\<rparr>,
     \<lparr>title = ''Building Scalable Machine Learning Systems'',
      summary = ''Technical discussion on architecture patterns, infrastructure choices, and best practices for deploying ML models at scale in production environments.'',
      url = ''https://news.ycombinator.com/item?id=12346'',
      source = ''HackerNews'', relevance = 0.87\<rparr>,
     \<lparr>title = ''Open Source AI Tools and Frameworks'',
      summary = ''Community discussion about the latest open-source tools, libraries, and frameworks that are driving innovation in artificial intelligence development.'',
      url = ''https://news.ycombinator.com/item?id=12347'',
      source = ''HackerNews'', relevance = 0.84\<rparr>,
     \<lparr>title = ''Ethics in AI Development'',
      summary = ''Important conversation about responsible AI development, bias mitigation, privacy concerns, and the societal impact of artificial intelligence systems.'',
      url = ''https://news.ycombinator.com/item?id=12348'',
      source = ''HackerNews'', relevance = 0.81\<rparr>,
     \<lparr>title = ''Startup Success with AI Integration'',
      summary = ''Real-world case studies and experiences from startups that have successfully integrated AI technologies into their products and business models.'',
      url = ''https://news.ycombinator.com/item?id=12349'',
      source = ''HackerNews'', relevance = 0.78\<rparr>,
     \<lparr>title = ''Latest Breakthroughs in Research'',
      summary = ''Discussion of recent academic papers, research findings, and technological breakthroughs that are pushing the boundaries of what's possible.'',
      url = ''https://news.ycombinator.com/item?id=12350'',
      source = ''HackerNews'', relevance = 0.75\<rparr>,
     \<lparr>title = ''AI in Software Development'',
      summary = ''How artificial intelligence is changing the way we write, test, and maintain code, including AI-powered development tools and automation.'',
      url = ''https://news.ycombinator.com/item?id=12351'',
      source = ''HackerNews'', relevance = 0.72\<rparr>,
     \<lparr>title = ''Data Privacy and Security'',
      summary = ''Technical discussion about protecting user data, implementing privacy-preserving technologies, and maintaining security in data-driven applications.'',
      url = ''https://news.ycombinator.com/item?id=12352'',
      source = ''HackerNews'', relevance = 0.69\<rparr>,
     \<lparr>title = ''Cloud Computing Innovations'',
      summary = ''Latest developments in cloud infrastructure, serverless computing, and distributed systems that enable modern application development.'',
      url = ''https://news.ycombinator.com/item?id=12353'',
      source = ''HackerNews'', relevance = 0.66\<rparr>,
     \<lparr>title = ''Mobile Technology Trends'',
      summary = ''Discussion about emerging mobile technologies, development frameworks, and user experience innovations in mobile application development.'',
      url = ''https://news.ycombinator.com/item?id=12354'',
      source = ''HackerNews'', relevance = 0.63\<rparr>]"

text \<open>
  \<open>calculateRelevance(topic, content)\<close>. The value of \<open>Math.random()\<close> is the
  argument \<open>u\<close>; numbers are reals (the rounding of the floating-point operations is
  not modelled). The \<open>forEach\<close> loop is the counter \<open>countMatches\<close>.
\<close>

definition wordMatches :: "string list \<Rightarrow> string \<Rightarrow> bool" where
  "wordMatches contentWords word =
     list_ex (\<lambda>cWord. str_includes cWord word \<or> str_includes word cWord) contentWords"

fun countMatches :: "string list \<Rightarrow> string list \<Rightarrow> nat \<Rightarrow> nat" where
  "countMatches contentWords [] matches = matches"
| "countMatches contentWords (word # rest) matches =
     countMatches contentWords rest
       (if wordMatches contentWords word then matches + 1 else matches)"

definition calculateRelevance :: "string \<Rightarrow> string \<Rightarrow> real \<Rightarrow> real" where
  "calculateRelevance topic content u =
     (let topicWords = split_on CHR '' '' (toLowerCase topic);
          contentWords = split_on CHR '' '' (toLowerCase content);
          matches = countMatches contentWords topicWords 0
      in min (real matches / real (length topicWords) + u * 0.3) 1)"

text \<open>
  The filter of the two fetch functions. The predicate is evaluated left to right for each
  article in turn and draws a random number only when neither text contains the topic;
  \<open>random\<close> is the sequence of values \<open>Math.random()\<close> returns and \<open>n\<close> counts
  the draws made so far.
\<close>

fun filterRelevant :: "(nat \<Rightarrow> real) \<Rightarrow> string \<Rightarrow> article list \<Rightarrow> nat \<Rightarrow> article list \<times> nat" where
  "filterRelevant random topic [] n = ([], n)"
| "filterRelevant random topic (a # as) n =
     (if str_includes (toLowerCase (title a)) (toLowerCase topic)
         \<or> str_includes (toLowerCase (summary a)) (toLowerCase topic)
      then (case filterRelevant random topic as n of (kept, n') \<Rightarrow> (a # kept, n'))
      else (case filterRelevant random topic as (Suc n) of (kept, n') \<Rightarrow>
              (if calculateRelevance topic (title a @ '' '' @ summary a) (random n) > 0.3
               then a # kept else kept, n')))"

definition fetchWikipediaArticles :: "(nat \<Rightarrow> real) \<Rightarrow> string \<Rightarrow> nat \<Rightarrow> article list \<times> nat" where
  "fetchWikipediaArticles random topic n =
     (case filterRelevant random topic generateWikipediaData n of
        (relevantArticles, n') \<Rightarrow> (take 8 relevantArticles, n'))"

definition fetchHackerNewsArticles :: "(nat \<Rightarrow> real) \<Rightarrow> string \<Rightarrow> nat \<Rightarrow> article list \<times> nat" where
  "fetchHackerNewsArticles random topic n =
     (case filterRelevant random topic generateHackerNewsData n of
        (relevantArticles, n') \<Rightarrow> (take 7 relevantArticles, n'))"

section \<open>AIResearchAgent: data\<close>

text \<open>
  A \<open>Date\<close> is its time value in milliseconds. \<open>JSON.stringify\<close> writes a
  \<open>Date\<close> as the ISO-8601 string of that instant (\<open>toISOString\<close>) and
  \<open>new Date(string)\<close> reads the instant back; the string is kept as \<open>ISO t\<close>.
\<close>

type_synonym date = int

datatype iso8601 = ISO int

definition toISOString :: "date \<Rightarrow> iso8601" where
  "toISOString t = ISO t"

fun newDateOfString :: "iso8601 \<Rightarrow> date" where
  "newDateOfString (ISO t) = t"

record log_entry =
  timestamp :: string
  message :: string

record raw_data =
  wikipedia :: "article list"
  hackernews :: "article list"

record processed_data =
  pd_sources :: "article list"
  pd_summary :: string
  pd_keywords :: "string list"

record metadata_rec =
  totalSources :: nat
  researchDepth :: string
  processingTime :: int

record results_rec =
  res_summary :: string
  res_sources :: "article list"
  res_keywords :: "string list"
  metadata :: metadata_rec

text \<open>
  The research object of \<open>startResearch\<close>, with the properties added later
  (\<open>rawData\<close>, \<open>processedData\<close>, \<open>endTime\<close>) absent as \<open>None\<close>. The type
  of the two time stamps is a parameter: a \<open>date\<close> in memory, an ISO string in the
  stored JSON document.
\<close>

record 'd research_of =
  research_id :: string
  topic :: string
  depth :: string
  status :: string
  startTime :: 'd
  endTime :: "'d option"
  progress :: real
  currentStep :: nat
  logs :: "log_entry list"
  results :: "results_rec option"
  rawData :: "raw_data option"
  processedData :: "processed_data option"

type_synonym research = "date research_of"
type_synonym persisted = "iso8601 research_of"

datatype js_error = TypeError string | SyntaxError string

text \<open>
  The text under the key \<open>aiResearchHistory\<close>: text that \<open>JSON.parse\<close> rejects,
  JSON text of a value that is not an array, or the JSON text of a list of research
  objects (what \<open>saveHistory\<close> writes). JSON arrays of other shapes are outside the
  model.
\<close>

datatype stored_text = Malformed string | NotArray string | Document "persisted list"

datatype json_value = NonArrayValue string | RecordArray "persisted list"

fun JSON_parse :: "stored_text \<Rightarrow> js_error + json_value" where
  "JSON_parse (Malformed t) = Inl (SyntaxError t)"
| "JSON_parse (NotArray t) = Inr (NonArrayValue t)"
| "JSON_parse (Document ps) = Inr (RecordArray ps)"

definition toJSON :: "research \<Rightarrow> persisted" where
  "toJSON r =
     \<lparr>research_id = research_id r, topic = topic r, depth = depth r, status = status r,
      startTime = toISOString (startTime r), endTime = map_option toISOString (endTime r),
      progress = progress r, currentStep = currentStep r, logs = logs r,
      results = results r, rawData = rawData r, processedData = processedData r\<rparr>"

definition JSON_stringify :: "research list \<Rightarrow> stored_text" where
  "JSON_stringify rs = Document (map toJSON rs)"

text \<open>
  The page: the agent's fields, the objects they refer to (\<open>heap\<close>, so that the
  history and \<open>currentResearch\<close> can share one research object), local storage, the
  form's disabled flag, the alerts shown, and how many readings of the clock, random
  numbers and storage writes have been used.
\<close>

record agent =
  heap :: "nat \<Rightarrow> research"
  nextAddr :: nat
  currentResearch :: "nat option"
  researchHistory :: "nat list"
  localStorage :: "stored_text option"
  formDisabled :: bool
  alerts :: "string list"
  ticks :: nat
  draws :: nat
  writes :: nat

text \<open>
  The environment: the readings of the system clock in the order they are taken,
  \<open>toLocaleTimeString\<close>, the values of \<open>Math.random()\<close> in order, the text
  \<open>toString(36).substr(2, 9)\<close> makes of one, and whether the n-th
  \<open>localStorage.setItem\<close> succeeds.
\<close>

record world =
  clock :: "nat \<Rightarrow> int"
  localeTime :: "int \<Rightarrow> string"
  random :: "nat \<Rightarrow> real"
  base36 :: "real \<Rightarrow> string"
  setItemOk :: "nat \<Rightarrow> bool"

text \<open>An operation returns normally or throws; the page keeps its changes either way.\<close>

datatype result = Ok agent | Threw js_error agent

fun state_of :: "result \<Rightarrow> agent" where
  "state_of (Ok s) = s"
| "state_of (Threw e s) = s"

fun returned :: "result \<Rightarrow> bool" where
  "returned (Ok s) = True"
| "returned (Threw e s) = False"

fun seq :: "(agent \<Rightarrow> result) list \<Rightarrow> agent \<Rightarrow> result" where
  "seq [] s = Ok s"
| "seq (f # fs) s = (case f s of Ok s' \<Rightarrow> seq fs s' | Threw e s' \<Rightarrow> Threw e s')"

definition nullError :: js_error where
  "nullError = TypeError ''Cannot read properties of null''"

definition undefinedError :: js_error where
  "undefinedError = TypeError ''Cannot read properties of undefined''"

definition updateCurrent :: "(research \<Rightarrow> research) \<Rightarrow> agent \<Rightarrow> result" where
  "updateCurrent f s =
     (case currentResearch s of
        None \<Rightarrow> Threw nullError s
      | Some a \<Rightarrow> Ok (s\<lparr>heap := (heap s)(a := f (heap s a))\<rparr>))"

section \<open>AIResearchAgent: operations\<close>

definition addLog :: "world \<Rightarrow> string \<Rightarrow> agent \<Rightarrow> result" where
  "addLog w msg s =
     (let log = \<lparr>timestamp = localeTime w (clock w (ticks s)), message = msg\<rparr>
      in updateCurrent (\<lambda>r. r\<lparr>logs := logs r @ [log]\<rparr>) (s\<lparr>ticks := Suc (ticks s)\<rparr>))"

text \<open>\<open>updateProgressBar\<close> reads \<open>this.currentResearch.progress\<close> and writes the DOM only.\<close>

definition updateProgressBar :: "agent \<Rightarrow> result" where
  "updateProgressBar s = (case currentResearch s of None \<Rightarrow> Threw nullError s | Some a \<Rightarrow> Ok s)"

definition showProgressSection :: "agent \<Rightarrow> result" where
  "showProgressSection s = updateProgressBar s"

definition disableForm :: "agent \<Rightarrow> result" where
  "disableForm s = Ok (s\<lparr>formDisabled := True\<rparr>)"

definition enableForm :: "agent \<Rightarrow> result" where
  "enableForm s = Ok (s\<lparr>formDisabled := False\<rparr>)"

definition showError :: "string \<Rightarrow> agent \<Rightarrow> result" where
  "showError msg s = Ok (s\<lparr>alerts := alerts s @ [msg]\<rparr>)"

definition generateId :: "world \<Rightarrow> agent \<Rightarrow> string \<times> agent" where
  "generateId w s =
     (''research_'' @ show_int (clock w (ticks s)) @ ''_'' @ base36 w (random w (draws s)),
      s\<lparr>ticks := Suc (ticks s), draws := Suc (draws s)\<rparr>)"

definition generateSummary :: "string \<Rightarrow> article list \<Rightarrow> string" where
  "generateSummary tp srcs =
     ''Based on comprehensive analysis of '' @ show_nat (length srcs)
     @ '' high-quality sources, here's what we found about '' @ [CHR 0x22] @ tp @ [CHR 0x22]
     @ '':'' @ [CHR 0x0A, CHR 0x0A]
     @ ''The research reveals several key insights and trends in this field. Our analysis indicates significant developments and ongoing discussions around this topic. The sources provide diverse perspectives from academic research, industry reports, and expert opinions.''
     @ [CHR 0x0A, CHR 0x0A]
     @ ''Key findings include emerging patterns, technological advancements, and practical applications that are shaping the current landscape. The research shows both opportunities and challenges that stakeholders should consider.''
     @ [CHR 0x0A, CHR 0x0A]
     @ ''This summary synthesizes information from Wikipedia articles, HackerNews discussions, and other authoritative sources to provide a comprehensive overview of the current state and future directions in this area.''
     @ [CHR 0x0A, CHR 0x0A]
     @ ''The analysis suggests continued growth and evolution in this field, with several factors driving innovation and adoption. Further research and monitoring of developments would be beneficial for staying current with rapid changes.''"

definition additionalKeywords :: "string list" where
  "additionalKeywords =
     [''artificial intelligence'', ''machine learning'', ''technology'', ''innovation'',
      ''research'', ''development'', ''analysis'', ''trends'', ''future'', ''applications'',
      ''industry'', ''market'', ''growth'', ''challenges'', ''opportunities'', ''solutions'']"

definition extractKeywords :: "string \<Rightarrow> article list \<Rightarrow> string list" where
  "extractKeywords tp srcs =
     (let baseKeywords = split_on CHR '' '' (toLowerCase tp);
          allKeywords = baseKeywords @ additionalKeywords;
          uniqueKeywords = uniqueSet allKeywords
      in take 12 uniqueKeywords)"

text \<open>
  The object \<open>depthMap\<close> of \<open>processData\<close>; a depth that is not one of its three
  keys is looked up as \<open>undefined\<close> (the names inherited from \<open>Object.prototype\<close>
  are not modelled: the depth comes from the options of a select element).
\<close>

definition depthMap :: "string \<Rightarrow> nat option" where
  "depthMap d =
     (if d = ''basic'' then Some 5 else if d = ''detailed'' then Some 10
      else if d = ''comprehensive'' then Some 15 else None)"

definition startResearch_begin :: "world \<Rightarrow> string \<Rightarrow> string \<Rightarrow> agent \<Rightarrow> result" where
  "startResearch_begin w tp dp s =
     (case generateId w s of (newId, s1) \<Rightarrow>
        let a = nextAddr s1;
            r = \<lparr>research_id = newId, topic = tp, depth = dp, status = ''running'',
                 startTime = clock w (ticks s1), endTime = None, progress = 0, currentStep = 1,
                 logs = [], results = None, rawData = None, processedData = None\<rparr>
        in seq [showProgressSection, disableForm]
             (s1\<lparr>heap := (heap s1)(a := r), nextAddr := Suc a, currentResearch := Some a,
                 ticks := Suc (ticks s1)\<rparr>))"

definition parseInput :: "world \<Rightarrow> agent \<Rightarrow> result" where
  "parseInput w s =
     (case currentResearch s of
        None \<Rightarrow> Threw nullError s
      | Some a \<Rightarrow>
          seq [addLog w (''Validating research topic: '' @ [CHR 0x22] @ topic (heap s a) @ [CHR 0x22]),
               addLog w (''Research depth set to: '' @ depth (heap s a)),
               addLog w ''Input validation completed''] s)"

text \<open>
  \<open>gatherData\<close>: the two fetches only wait and draw random numbers, so they are run
  here one after the other without another task in between.
\<close>

definition gatherData_fetch :: "world \<Rightarrow> agent \<Rightarrow> result" where
  "gatherData_fetch w s =
     (case currentResearch s of
        None \<Rightarrow> Threw nullError s
      | Some a \<Rightarrow>
          (case fetchWikipediaArticles (random w) (topic (heap s a)) (draws s) of (srcs, n1) \<Rightarrow>
           case fetchHackerNewsArticles (random w) (topic (heap s a)) n1 of (news, n2) \<Rightarrow>
             seq [updateCurrent (\<lambda>r. r\<lparr>rawData := Some \<lparr>wikipedia = srcs, hackernews = news\<rparr>\<rparr>),
                  addLog w (''Found '' @ show_nat (length srcs) @ '' Wikipedia articles''),
                  addLog w (''Found '' @ show_nat (length news) @ '' HackerNews articles''),
                  addLog w ''Data gathering completed'']
               (s\<lparr>draws := n2\<rparr>)))"

definition gatherData :: "world \<Rightarrow> agent \<Rightarrow> result" where
  "gatherData w = seq [addLog w ''Fetching data from external APIs...'', gatherData_fetch w]"

definition topSourcesOf :: "string \<Rightarrow> raw_data \<Rightarrow> article list" where
  "topSourcesOf dp raw =
     (let maxArticles = depthMap dp;
          allSources = wikipedia raw @ hackernews raw
      in slice0 (sort_by (\<lambda>a b. relevance b - relevance a) allSources) maxArticles)"

definition processData_body :: "world \<Rightarrow> agent \<Rightarrow> result" where
  "processData_body w s =
     (case currentResearch s of
        None \<Rightarrow> Threw nullError s
      | Some a \<Rightarrow>
          (case rawData (heap s a) of
             None \<Rightarrow> Threw undefinedError s
           | Some raw \<Rightarrow>
               let topSources = topSourcesOf (depth (heap s a)) raw;
                   summ = generateSummary (topic (heap s a)) topSources;
                   kws = extractKeywords (topic (heap s a)) topSources
               in seq [updateCurrent (\<lambda>r. r\<lparr>processedData :=
                           Some \<lparr>pd_sources = topSources, pd_summary = summ, pd_keywords = kws\<rparr>\<rparr>),
                       addLog w (''Processed '' @ show_nat (length topSources) @ '' top articles''),
                       addLog w (''Generated summary ('' @ show_nat (length summ) @ '' characters)''),
                       addLog w (''Extracted '' @ show_nat (length kws) @ '' keywords''),
                       addLog w ''Data processing completed''] s))"

definition processData :: "world \<Rightarrow> agent \<Rightarrow> result" where
  "processData w = seq [addLog w ''Processing and analyzing collected data...'', processData_body w]"

text \<open>
  \<open>saveHistory\<close>: the whole history, as the objects are now, is written under the key;
  a \<open>setItem\<close> that throws is caught and leaves the stored text as it was.
\<close>

definition saveHistory :: "world \<Rightarrow> agent \<Rightarrow> result" where
  "saveHistory w s =
     (let s1 = s\<lparr>writes := Suc (writes s)\<rparr>
      in if setItemOk w (writes s)
         then Ok (s1\<lparr>localStorage := Some (JSON_stringify (map (heap s) (researchHistory s)))\<rparr>)
         else Ok s1)"

text \<open>
  The middle of \<open>persistResults\<close>: the \<open>results\<close> object is assembled, the
  reference to the current research is put at the front of the history
  (\<open>unshift\<close>), and the history is saved.
\<close>

definition persistResults_body :: "world \<Rightarrow> agent \<Rightarrow> result" where
  "persistResults_body w s =
     (case currentResearch s of
        None \<Rightarrow> Threw nullError s
      | Some a \<Rightarrow>
          (case processedData (heap s a) of
             None \<Rightarrow> Threw undefinedError s
           | Some pd \<Rightarrow>
               let res = \<lparr>res_summary = pd_summary pd, res_sources = pd_sources pd,
                          res_keywords = pd_keywords pd,
                          metadata = \<lparr>totalSources = length (pd_sources pd),
                                      researchDepth = depth (heap s a),
                                      processingTime = clock w (ticks s) - startTime (heap s a)\<rparr>\<rparr>;
                   s1 = s\<lparr>heap := (heap s)(a := (heap s a)\<lparr>results := Some res\<rparr>),
                          ticks := Suc (ticks s)\<rparr>;
                   s2 = s1\<lparr>researchHistory := a # researchHistory s1\<rparr>
               in saveHistory w s2))"

definition persistResults :: "world \<Rightarrow> agent \<Rightarrow> result" where
  "persistResults w =
     seq [addLog w ''Saving results to local storage...'',
          persistResults_body w,
          addLog w ''Results saved successfully'',
          addLog w ''Research added to history'']"

text \<open>
  \<open>showResults\<close>: \<open>populateResults\<close> reads \<open>endTime\<close> and \<open>results\<close> of the
  current research (and throws when one is missing), then the form is enabled again.
\<close>

definition populateResults :: "agent \<Rightarrow> result" where
  "populateResults s =
     (case currentResearch s of
        None \<Rightarrow> Threw nullError s
      | Some a \<Rightarrow>
          (case endTime (heap s a) of
             None \<Rightarrow> Threw undefinedError s
           | Some e \<Rightarrow>
               (case results (heap s a) of None \<Rightarrow> Threw nullError s | Some res \<Rightarrow> Ok s)))"

definition showResults :: "agent \<Rightarrow> result" where
  "showResults = seq [populateResults, enableForm]"

definition setEndTime :: "world \<Rightarrow> agent \<Rightarrow> result" where
  "setEndTime w s =
     updateCurrent (\<lambda>r. r\<lparr>endTime := Some (clock w (ticks s))\<rparr>) (s\<lparr>ticks := Suc (ticks s)\<rparr>)"

definition returnResults :: "world \<Rightarrow> agent \<Rightarrow> result" where
  "returnResults w =
     seq [addLog w ''Preparing results for display...'',
          updateCurrent (\<lambda>r. r\<lparr>status := ''completed''\<rparr>),
          setEndTime w,
          addLog w ''Research workflow completed successfully'',
          showResults]"

text \<open>
  \<open>executeStep\<close> in its two parts: up to the \<open>await this.delay(...)\<close>, and from there
  to the end. Other tasks of the page can run between the two.
\<close>

definition executeStep_begin :: "world \<Rightarrow> nat \<Rightarrow> string \<Rightarrow> agent \<Rightarrow> result" where
  "executeStep_begin w stepNumber name =
     seq [updateCurrent (\<lambda>r. r\<lparr>currentStep := stepNumber\<rparr>),
          addLog w (''Starting '' @ name @ ''...'')]"

definition stepLogic :: "world \<Rightarrow> nat \<Rightarrow> agent \<Rightarrow> result" where
  "stepLogic w stepNumber =
     (if stepNumber = 1 then parseInput w
      else if stepNumber = 2 then gatherData w
      else if stepNumber = 3 then processData w
      else if stepNumber = 4 then persistResults w
      else if stepNumber = 5 then returnResults w
      else Ok)"

definition executeStep_finish :: "world \<Rightarrow> nat \<Rightarrow> string \<Rightarrow> agent \<Rightarrow> result" where
  "executeStep_finish w stepNumber name =
     seq [stepLogic w stepNumber,
          addLog w (name @ '' completed successfully''),
          updateCurrent (\<lambda>r. r\<lparr>progress := real stepNumber / 5 * 100\<rparr>),
          updateProgressBar]"

definition executeStep :: "world \<Rightarrow> nat \<Rightarrow> string \<Rightarrow> agent \<Rightarrow> result" where
  "executeStep w stepNumber name =
     seq [executeStep_begin w stepNumber name, executeStep_finish w stepNumber name]"

text \<open>The names of the five steps; their durations only delay the run.\<close>

definition steps :: "string list" where
  "steps = [''Input Parsing'', ''Data Gathering'', ''Processing'', ''Result Persistence'',
            ''Return Results'']"

text \<open>The class has no method \<open>completeResearch\<close>: the call throws a \<open>TypeError\<close>.\<close>

definition completeResearch :: "agent \<Rightarrow> result" where
  "completeResearch s = Threw (TypeError ''this.completeResearch is not a function'') s"

fun workflowLoop :: "world \<Rightarrow> nat \<Rightarrow> string list \<Rightarrow> agent \<Rightarrow> result" where
  "workflowLoop w i [] s = Ok s"
| "workflowLoop w i (name # rest) s =
     (case executeStep w (i + 1) name s of
        Ok s' \<Rightarrow> workflowLoop w (i + 1) rest s'
      | Threw e s' \<Rightarrow> Threw e s')"

definition runResearchWorkflow :: "world \<Rightarrow> agent \<Rightarrow> result" where
  "runResearchWorkflow w = seq [workflowLoop w 0 steps, completeResearch]"

text \<open>A run that no other task of the page interrupts.\<close>

definition startResearch :: "world \<Rightarrow> string \<Rightarrow> string \<Rightarrow> agent \<Rightarrow> result" where
  "startResearch w tp dp = seq [startResearch_begin w tp dp, runResearchWorkflow w]"

definition handleSubmit :: "world \<Rightarrow> string \<Rightarrow> string \<Rightarrow> agent \<Rightarrow> result" where
  "handleSubmit w topicValue depthValue s =
     (let tp = trim topicValue
      in if tp = [] then showError ''Please enter a research topic'' s
         else startResearch w tp depthValue s)"


definition findById :: "agent \<Rightarrow> string \<Rightarrow> nat option" where
  "findById s researchId = find (\<lambda>a. research_id (heap s a) = researchId) (researchHistory s)"

definition loadResearchFromHistory :: "string \<Rightarrow> agent \<Rightarrow> result" where
  "loadResearchFromHistory researchId s =
     (case findById s researchId of
        None \<Rightarrow> Ok s
      | Some a \<Rightarrow>
          if status (heap s a) \<noteq> ''completed'' then Ok s
          else showResults (s\<lparr>currentResearch := Some a\<rparr>))"

section \<open>History store: loading\<close>

definition revive :: "persisted \<Rightarrow> research" where
  "revive p =
     \<lparr>research_id = research_id p, topic = topic p, depth = depth p, status = status p,
      startTime = newDateOfString (startTime p),
      endTime = (case endTime p of None \<Rightarrow> None | Some e \<Rightarrow> Some (newDateOfString e)),
      progress = progress p, currentStep = currentStep p, logs = logs p,
      results = results p, rawData = rawData p, processedData = processedData p\<rparr>"

text \<open>
  The body of the \<open>try\<close> block of \<open>loadHistory\<close>: \<open>Inr None\<close> when it ends
  without returning (nothing saved, or the empty string), \<open>Inl\<close> when it throws.
\<close>

definition loadHistory_try :: "stored_text option \<Rightarrow> js_error + research list option" where
  "loadHistory_try saved =
     (case saved of
        None \<Rightarrow> Inr None
      | Some txt \<Rightarrow>
          if txt = Malformed [] then Inr None
          else (case JSON_parse txt of
                  Inl e \<Rightarrow> Inl e
                | Inr (NonArrayValue v) \<Rightarrow> Inl (TypeError ''parsed.map is not a function'')
                | Inr (RecordArray parsed) \<Rightarrow> Inr (Some (map revive parsed))))"

definition loadHistory :: "stored_text option \<Rightarrow> js_error + research list" where
  "loadHistory saved =
     (case loadHistory_try saved of
        Inl e \<Rightarrow> Inr []
      | Inr None \<Rightarrow> Inr []
      | Inr (Some rs) \<Rightarrow> Inr rs)"

definition blankResearch :: research where
  "blankResearch =
     \<lparr>research_id = [], topic = [], depth = [], status = [], startTime = 0, endTime = None,
      progress = 0, currentStep = 0, logs = [], results = None, rawData = None,
      processedData = None\<rparr>"

text \<open>
  The constructor: the fields, with the loaded history as new objects, then \<open>init\<close>,
  whose \<open>setupProgressTracking\<close> calls \<open>updateProgressBar\<close>.
\<close>

definition newAgent :: "stored_text option \<Rightarrow> js_error + agent" where
  "newAgent saved =
     (case loadHistory saved of
        Inl e \<Rightarrow> Inl e
      | Inr rs \<Rightarrow>
          Inr \<lparr>heap = (\<lambda>a. if a < length rs then rs ! a else blankResearch),
               nextAddr = length rs, currentResearch = None,
               researchHistory = [0..<length rs], localStorage = saved,
               formDisabled = False, alerts = [], ticks = 0, draws = 0, writes = 0\<rparr>)"

definition setupProgressTracking :: "agent \<Rightarrow> result" where
  "setupProgressTracking = updateProgressBar"

definition init :: "agent \<Rightarrow> result" where
  "init = seq [setupProgressTracking]"

section \<open>Traces of a run\<close>

text \<open>
  The pages a run passes through: after the synchronous start, and after each of the two
  parts of every step, in order. It follows \<open>workflowLoop\<close> and stops where that
  stops.
\<close>

fun workflowTrace :: "world \<Rightarrow> nat \<Rightarrow> string list \<Rightarrow> agent \<Rightarrow> agent list" where
  "workflowTrace w i [] s = []"
| "workflowTrace w i (name # rest) s =
     (case executeStep_begin w (i + 1) name s of
        Threw e s1 \<Rightarrow> [s1]
      | Ok s1 \<Rightarrow>
          s1 # (case executeStep_finish w (i + 1) name s1 of
                  Threw e s2 \<Rightarrow> [s2]
                | Ok s2 \<Rightarrow> s2 # workflowTrace w (i + 1) rest s2))"

definition runTrace :: "world \<Rightarrow> string \<Rightarrow> string \<Rightarrow> agent \<Rightarrow> agent list" where
  "runTrace w tp dp s =
     (case startResearch_begin w tp dp s of
        Threw e s0 \<Rightarrow> [s0]
      | Ok s0 \<Rightarrow> s0 # workflowTrace w 0 steps s0)"

text \<open>
  Step 4 cut at the moment the research object has been put into the history and the
  history saved: \<open>executeStep_finish w 4 name\<close> is \<open>persistResults_toPrepend\<close>
  followed by \<open>finish4_afterPrepend\<close> (lemma \<open>finish4_cut\<close>).
\<close>

definition persistResults_toPrepend :: "world \<Rightarrow> agent \<Rightarrow> result" where
  "persistResults_toPrepend w =
     seq [addLog w ''Saving results to local storage...'', persistResults_body w]"

definition finish4_afterPrepend :: "world \<Rightarrow> string \<Rightarrow> agent \<Rightarrow> result" where
  "finish4_afterPrepend w name =
     seq [addLog w ''Results saved successfully'',
          addLog w ''Research added to history'',
          addLog w (name @ '' completed successfully''),
          updateCurrent (\<lambda>r. r\<lparr>progress := real 4 / 5 * 100\<rparr>),
          updateProgressBar]"

text \<open>
  An uninterrupted run cut at the same moment: \<open>startResearch\<close> is \<open>runToPrepend\<close>
  followed by \<open>runAfterPrepend\<close> (lemma \<open>run_cut\<close>).
\<close>

definition runToPrepend :: "world \<Rightarrow> string \<Rightarrow> string \<Rightarrow> agent \<Rightarrow> result" where
  "runToPrepend w tp dp =
     seq [startResearch_begin w tp dp,
          executeStep w 1 ''Input Parsing'',
          executeStep w 2 ''Data Gathering'',
          executeStep w 3 ''Processing'',
          executeStep_begin w 4 ''Result Persistence'',
          persistResults_toPrepend w]"

definition runAfterPrepend :: "world \<Rightarrow> agent \<Rightarrow> result" where
  "runAfterPrepend w =
     seq [finish4_afterPrepend w ''Result Persistence'',
          executeStep w 5 ''Return Results'',
          completeResearch]"

text \<open>
  \<open>stepped a fr fs s s'\<close>: page \<open>s'\<close> is page \<open>s\<close> with \<open>fs\<close> applied to its
  fields and \<open>fr\<close> to the research object at \<open>a\<close>, except that log entries may have
  been appended to that object and the clock may have been read.
\<close>

definition stepped :: "nat \<Rightarrow> (research \<Rightarrow> research) \<Rightarrow> (agent \<Rightarrow> agent) \<Rightarrow> agent \<Rightarrow> agent \<Rightarrow> bool" where
  "stepped a fr fs s s' =
     ((\<forall>h t. s'\<lparr>heap := h, ticks := t\<rparr> = (fs s)\<lparr>heap := h, ticks := t\<rparr>)
      \<and> (\<forall>b. b \<noteq> a \<longrightarrow> heap s' b = heap s b)
      \<and> (\<forall>L. (heap s' a)\<lparr>logs := L\<rparr> = (fr (heap s a))\<lparr>logs := L\<rparr>)
      \<and> prefix (logs (heap s a)) (logs (heap s' a)))"

section \<open>The score as the specification words it\<close>





section \<open>A concrete page and environment\<close>

definition testWorld :: world where
  "testWorld =
     \<lparr>clock = (\<lambda>n. 1700000000000 + int n), localeTime = show_int, random = (\<lambda>n. 0),
      base36 = (\<lambda>x. ''4fzzzxjyl''), setItemOk = (\<lambda>n. True)\<rparr>"

text \<open>The page a constructor call leaves when nothing is stored.\<close>

definition initialAgent :: agent where
  "initialAgent =
     \<lparr>heap = (\<lambda>a. blankResearch), nextAddr = 0, currentResearch = None,
      researchHistory = [], localStorage = None, formDisabled = False, alerts = [],
      ticks = 0, draws = 0, writes = 0\<rparr>"

section \<open>Auxiliary lemmas\<close>

subsection \<open>Strings and the relevance score\<close>







subsection \<open>The stable sort\<close>











subsection \<open>Keywords\<close>













subsection \<open>Sequencing and the primitive operations\<close>

lemma updateCurrent_Some: "currentResearch s = Some a \<Longrightarrow> updateCurrent f s = Ok (s\<lparr>heap := (heap s)(a := f (heap s a))\<rparr>)"
  by (simp add: updateCurrent_def)

lemma addLog_Some: "currentResearch s = Some a \<Longrightarrow> addLog w m s = Ok (s\<lparr>ticks := Suc (ticks s), heap := (heap s)(a := (heap s a)\<lparr>logs := logs (heap s a) @ [\<lparr>timestamp = localeTime w (clock w (ticks s)), message = m\<rparr>]\<rparr>)\<rparr>)"
  by (simp add: addLog_def updateCurrent_def)

lemma updateProgressBar_Some: "currentResearch s = Some a \<Longrightarrow> updateProgressBar s = Ok s"
  by (simp add: updateProgressBar_def)

lemmas prim = addLog_Some updateCurrent_Some updateProgressBar_Some

lemma returned_Ok: "returned r \<Longrightarrow> r = Ok (state_of r)"
  by (cases r) simp_all

lemma seq_append:
  "seq (fs @ gs) s = (case seq fs s of Ok s' \<Rightarrow> seq gs s' | Threw e s' \<Rightarrow> Threw e s')"
  by (induction fs arbitrary: s) (simp_all split: result.splits)

lemma workflowLoop_steps:
  "workflowLoop w 0 steps s =
     seq [executeStep w 1 ''Input Parsing'', executeStep w 2 ''Data Gathering'',
          executeStep w 3 ''Processing'', executeStep w 4 ''Result Persistence'',
          executeStep w 5 ''Return Results''] s"
  by (simp add: steps_def numeral_2_eq_2 numeral_3_eq_3 eval_nat_numeral split: result.splits)

lemma finish4_cut:
  "executeStep_finish w 4 nm s = seq [persistResults_toPrepend w, finish4_afterPrepend w nm] s"
  by (simp add: executeStep_finish_def stepLogic_def persistResults_def
      persistResults_toPrepend_def finish4_afterPrepend_def split: result.splits)

lemma startResearch_begin_eff:
  "startResearch_begin w tp dp s =
     Ok (s\<lparr>heap := (heap s)(nextAddr s :=
              \<lparr>research_id = ''research_'' @ show_int (clock w (ticks s)) @ ''_''
                   @ base36 w (random w (draws s)),
               topic = tp, depth = dp, status = ''running'',
               startTime = clock w (Suc (ticks s)), endTime = None, progress = 0,
               currentStep = 1, logs = [], results = None, rawData = None,
               processedData = None\<rparr>),
           nextAddr := Suc (nextAddr s), currentResearch := Some (nextAddr s),
           ticks := Suc (Suc (ticks s)), draws := Suc (draws s), formDisabled := True\<rparr>)"
  by (simp add: startResearch_begin_def generateId_def showProgressSection_def
      updateProgressBar_def disableForm_def Let_def)

lemma toPrepend_eff:
  "currentResearch s = Some a \<Longrightarrow> processedData (heap s a) = Some pd \<Longrightarrow>
   returned (persistResults_toPrepend w s) \<and>
   stepped a (\<lambda>r. r\<lparr>results := Some
            \<lparr>res_summary = pd_summary pd, res_sources = pd_sources pd,
             res_keywords = pd_keywords pd,
             metadata = \<lparr>totalSources = length (pd_sources pd), researchDepth = depth r,
                         processingTime = clock w (Suc (ticks s)) - startTime r\<rparr>\<rparr>\<rparr>)
     (\<lambda>x. x\<lparr>researchHistory := a # researchHistory x, writes := Suc (writes x),
            localStorage := localStorage (state_of (persistResults_toPrepend w s))\<rparr>)
     s (state_of (persistResults_toPrepend w s))"
  by (simp add: persistResults_toPrepend_def persistResults_body_def saveHistory_def prim
      stepped_def Let_def)

lemma afterPrepend_eff:
  "currentResearch s = Some a \<Longrightarrow>
   returned (finish4_afterPrepend w nm s) \<and>
   stepped a (\<lambda>r. r\<lparr>progress := 80\<rparr>) (\<lambda>s. s) s (state_of (finish4_afterPrepend w nm s))"
  by (simp add: finish4_afterPrepend_def prim stepped_def)

lemma revive_toJSON: "revive (toJSON r) = r"
  by (cases "endTime r") (simp_all add: revive_def toJSON_def toISOString_def)

lemma loadHistory_stringify: "loadHistory (Some (JSON_stringify rs)) = Inr rs"
  by (simp add: loadHistory_def loadHistory_try_def JSON_stringify_def comp_def revive_toJSON)

lemma persist_body_eff:
  "currentResearch s = Some a \<Longrightarrow> processedData (heap s a) = Some pd \<Longrightarrow>
   returned (persistResults_body w s)
   \<and> researchHistory (state_of (persistResults_body w s)) = a # researchHistory s
   \<and> currentResearch (state_of (persistResults_body w s)) = Some a
   \<and> (setItemOk w (writes s) \<longrightarrow>
        localStorage (state_of (persistResults_body w s))
          = Some (JSON_stringify (map (heap (state_of (persistResults_body w s)))
                                    (researchHistory (state_of (persistResults_body w s))))))
   \<and> (\<not> setItemOk w (writes s) \<longrightarrow>
        localStorage (state_of (persistResults_body w s)) = localStorage s)"
  by (simp add: persistResults_body_def saveHistory_def Let_def)

lemma stepped_sel:
  assumes "stepped a fr fs s s'"
    and "\<And>x h t. sel (x\<lparr>heap := h, ticks := t\<rparr>) = sel x"
  shows "sel s' = sel (fs s)"
proof -
  have "s'\<lparr>heap := heap s, ticks := 0\<rparr> = (fs s)\<lparr>heap := heap s, ticks := 0\<rparr>"
    using assms(1) by (simp add: stepped_def)
  then have "sel (s'\<lparr>heap := heap s, ticks := 0\<rparr>)
           = sel ((fs s)\<lparr>heap := heap s, ticks := 0\<rparr>)"
    by simp
  then show ?thesis by (simp add: assms(2))
qed

lemma stepped_rec:
  assumes "stepped a fr fs s s'"
    and "\<And>r L. sel (r\<lparr>logs := L\<rparr>) = sel r"
  shows "sel (heap s' a) = sel (fr (heap s a))"
proof -
  have "(heap s' a)\<lparr>logs := []\<rparr> = (fr (heap s a))\<lparr>logs := []\<rparr>"
    using assms(1) by (simp add: stepped_def)
  then have "sel ((heap s' a)\<lparr>logs := []\<rparr>) = sel ((fr (heap s a))\<lparr>logs := []\<rparr>)"
    by simp
  then show ?thesis by (simp add: assms(2))
qed

lemma stepped_other: "stepped a fr fs s s' \<Longrightarrow> b \<noteq> a \<Longrightarrow> heap s' b = heap s b"
  by (simp add: stepped_def)

lemma stepped_logs: "stepped a fr fs s s' \<Longrightarrow> prefix (logs (heap s a)) (logs (heap s' a))"
  by (simp add: stepped_def)


lemma stepped_cong:
  "stepped a fr fs s s' \<Longrightarrow> fr (heap s a) = fr' (heap s a) \<Longrightarrow> fs s = fs' s
   \<Longrightarrow> stepped a fr' fs' s s'"
  by (simp add: stepped_def)

lemma begin_phase:
  "currentResearch s = Some a \<Longrightarrow>
   returned (executeStep_begin w k nm s) \<and>
   stepped a (\<lambda>r. r\<lparr>currentStep := k\<rparr>) (\<lambda>x. x) s (state_of (executeStep_begin w k nm s))"
  by (simp add: executeStep_begin_def prim stepped_def)

lemma finish1:
  "currentResearch s = Some a \<Longrightarrow>
   returned (executeStep_finish w 1 nm s) \<and>
   stepped a (\<lambda>r. r\<lparr>progress := 20\<rparr>) (\<lambda>x. x) s (state_of (executeStep_finish w 1 nm s))"
  by (simp add: executeStep_finish_def stepLogic_def parseInput_def prim stepped_def)

lemma finish2:
  "currentResearch s = Some a \<Longrightarrow>
   returned (executeStep_finish w 2 nm s) \<and>
   stepped a (\<lambda>r. r\<lparr>progress := 40, rawData := Some
            \<lparr>wikipedia = fst (fetchWikipediaArticles (random w) (topic r) (draws s)),
             hackernews = fst (fetchHackerNewsArticles (random w) (topic r)
                 (snd (fetchWikipediaArticles (random w) (topic r) (draws s))))\<rparr>\<rparr>)
     (\<lambda>x. x\<lparr>draws := snd (fetchHackerNewsArticles (random w) (topic (heap s a))
                 (snd (fetchWikipediaArticles (random w) (topic (heap s a)) (draws s))))\<rparr>) s
      (state_of (executeStep_finish w 2 nm s))"
  by (simp add: executeStep_finish_def stepLogic_def gatherData_def gatherData_fetch_def prim
      stepped_def case_prod_beta)

lemma finish3:
  "currentResearch s = Some a \<Longrightarrow> rawData (heap s a) = Some raw \<Longrightarrow>
   returned (executeStep_finish w 3 nm s) \<and>
   stepped a (\<lambda>r. r\<lparr>progress := 60, processedData := Some
            \<lparr>pd_sources = topSourcesOf (depth r) raw,
             pd_summary = generateSummary (topic r) (topSourcesOf (depth r) raw),
             pd_keywords = extractKeywords (topic r) (topSourcesOf (depth r) raw)\<rparr>\<rparr>) (\<lambda>x. x) s
      (state_of (executeStep_finish w 3 nm s))"
  by (simp add: executeStep_finish_def stepLogic_def processData_def processData_body_def prim
      stepped_def Let_def)

lemma finish5:
  "currentResearch s = Some a \<Longrightarrow> results (heap s a) = Some res \<Longrightarrow>
   returned (executeStep_finish w 5 nm s) \<and>
   stepped a (\<lambda>r. r\<lparr>progress := 100, status := ''completed'',
                          endTime := Some (clock w (Suc (ticks s)))\<rparr>)
          (\<lambda>x. x\<lparr>formDisabled := False\<rparr>) s (state_of (executeStep_finish w 5 nm s))"
  by (simp add: executeStep_finish_def stepLogic_def returnResults_def setEndTime_def
      showResults_def populateResults_def enableForm_def prim stepped_def)

subsection \<open>The states of an uninterrupted run\<close>

lemma workflowTrace_steps:
  "workflowTrace w 0 steps s =
     (case executeStep_begin w 1 ''Input Parsing'' s of Threw e s1 \<Rightarrow> [s1] | Ok s1 \<Rightarrow> s1 #
     (case executeStep_finish w 1 ''Input Parsing'' s1 of Threw e s2 \<Rightarrow> [s2] | Ok s2 \<Rightarrow> s2 #
     (case executeStep_begin w 2 ''Data Gathering'' s2 of Threw e s3 \<Rightarrow> [s3] | Ok s3 \<Rightarrow> s3 #
     (case executeStep_finish w 2 ''Data Gathering'' s3 of Threw e s4 \<Rightarrow> [s4] | Ok s4 \<Rightarrow> s4 #
     (case executeStep_begin w 3 ''Processing'' s4 of Threw e s5 \<Rightarrow> [s5] | Ok s5 \<Rightarrow> s5 #
     (case executeStep_finish w 3 ''Processing'' s5 of Threw e s6 \<Rightarrow> [s6] | Ok s6 \<Rightarrow> s6 #
     (case executeStep_begin w 4 ''Result Persistence'' s6 of Threw e s7 \<Rightarrow> [s7] | Ok s7 \<Rightarrow> s7 #
     (case executeStep_finish w 4 ''Result Persistence'' s7 of Threw e s8 \<Rightarrow> [s8] | Ok s8 \<Rightarrow> s8 #
     (case executeStep_begin w 5 ''Return Results'' s8 of Threw e s9 \<Rightarrow> [s9] | Ok s9 \<Rightarrow> s9 #
     (case executeStep_finish w 5 ''Return Results'' s9 of Threw e s10 \<Rightarrow> [s10]
        | Ok s10 \<Rightarrow> [s10]))))))))))"
  by (simp add: steps_def numeral_2_eq_2 numeral_3_eq_3 eval_nat_numeral split: result.splits)

lemma run_cut: "startResearch w tp dp s = seq [runToPrepend w tp dp, runAfterPrepend w] s"
  by (simp add: startResearch_def runResearchWorkflow_def workflowLoop_steps runToPrepend_def
      runAfterPrepend_def executeStep_def finish4_cut split: result.splits)

lemma run_chain:
  assumes a: "a = nextAddr s"
  obtains (chain) s0 b1 f1 b2 f2 b3 f3 b4 p4 f4 b5 f5 raw pd res where
    "startResearch_begin w tp dp s = Ok s0"
    "s0 = s\<lparr>heap := (heap s)(a :=
              \<lparr>research_id = ''research_'' @ show_int (clock w (ticks s)) @ ''_''
                   @ base36 w (random w (draws s)),
               topic = tp, depth = dp, status = ''running'',
               startTime = clock w (Suc (ticks s)), endTime = None, progress = 0,
               currentStep = 1, logs = [], results = None, rawData = None,
               processedData = None\<rparr>),
           nextAddr := Suc a, currentResearch := Some a,
           ticks := Suc (Suc (ticks s)), draws := Suc (draws s), formDisabled := True\<rparr>"
    "executeStep_begin w 1 ''Input Parsing'' s0 = Ok b1"
    "stepped a (\<lambda>r. r\<lparr>currentStep := 1\<rparr>) (\<lambda>x. x) s0 b1"
    "executeStep_finish w 1 ''Input Parsing'' b1 = Ok f1"
    "stepped a (\<lambda>r. r\<lparr>progress := 20\<rparr>) (\<lambda>x. x) b1 f1"
    "executeStep_begin w 2 ''Data Gathering'' f1 = Ok b2"
    "stepped a (\<lambda>r. r\<lparr>currentStep := 2\<rparr>) (\<lambda>x. x) f1 b2"
    "executeStep_finish w 2 ''Data Gathering'' b2 = Ok f2"
    "stepped a (\<lambda>r. r\<lparr>progress := 40, rawData := Some raw\<rparr>) (\<lambda>x. x\<lparr>draws := draws f2\<rparr>) b2 f2"
    "raw = \<lparr>wikipedia = fst (fetchWikipediaArticles (random w) tp (Suc (draws s))),
            hackernews = fst (fetchHackerNewsArticles (random w) tp
                (snd (fetchWikipediaArticles (random w) tp (Suc (draws s)))))\<rparr>"
    "executeStep_begin w 3 ''Processing'' f2 = Ok b3"
    "stepped a (\<lambda>r. r\<lparr>currentStep := 3\<rparr>) (\<lambda>x. x) f2 b3"
    "executeStep_finish w 3 ''Processing'' b3 = Ok f3"
    "stepped a (\<lambda>r. r\<lparr>progress := 60, processedData := Some pd\<rparr>) (\<lambda>x. x) b3 f3"
    "pd = \<lparr>pd_sources = topSourcesOf dp raw,
           pd_summary = generateSummary tp (topSourcesOf dp raw),
           pd_keywords = extractKeywords tp (topSourcesOf dp raw)\<rparr>"
    "executeStep_begin w 4 ''Result Persistence'' f3 = Ok b4"
    "stepped a (\<lambda>r. r\<lparr>currentStep := 4\<rparr>) (\<lambda>x. x) f3 b4"
    "persistResults_toPrepend w b4 = Ok p4"
    "stepped a (\<lambda>r. r\<lparr>results := Some res\<rparr>)
       (\<lambda>x. x\<lparr>researchHistory := a # researchHistory x, writes := Suc (writes x),
              localStorage := localStorage p4\<rparr>) b4 p4"
    "res = \<lparr>res_summary = pd_summary pd, res_sources = pd_sources pd,
            res_keywords = pd_keywords pd,
            metadata = \<lparr>totalSources = length (pd_sources pd), researchDepth = dp,
                        processingTime = clock w (Suc (ticks b4)) - clock w (Suc (ticks s))\<rparr>\<rparr>"
    "finish4_afterPrepend w ''Result Persistence'' p4 = Ok f4"
    "stepped a (\<lambda>r. r\<lparr>progress := 80\<rparr>) (\<lambda>x. x) p4 f4"
    "executeStep_finish w 4 ''Result Persistence'' b4 = Ok f4"
    "executeStep_begin w 5 ''Return Results'' f4 = Ok b5"
    "stepped a (\<lambda>r. r\<lparr>currentStep := 5\<rparr>) (\<lambda>x. x) f4 b5"
    "executeStep_finish w 5 ''Return Results'' b5 = Ok f5"
    "stepped a (\<lambda>r. r\<lparr>progress := 100, status := ''completed'',
                      endTime := Some (clock w (Suc (ticks b5)))\<rparr>)
       (\<lambda>x. x\<lparr>formDisabled := False\<rparr>) b5 f5"
    "runTrace w tp dp s = [s0, b1, f1, b2, f2, b3, f3, b4, f4, b5, f5]"
    "runToPrepend w tp dp s = Ok p4"
    "runAfterPrepend w p4 = Threw (TypeError ''this.completeResearch is not a function'') f5"
    "startResearch w tp dp s = Threw (TypeError ''this.completeResearch is not a function'') f5"
proof -
  define R0 where "R0 = \<lparr>research_id = ''research_'' @ show_int (clock w (ticks s)) @ ''_''
                   @ base36 w (random w (draws s)),
               topic = tp, depth = dp, status = ''running'',
               startTime = clock w (Suc (ticks s)), endTime = (None :: int option), progress = 0,
               currentStep = 1, logs = [], results = None, rawData = None,
               processedData = None\<rparr>"
  define s0 where "s0 = s\<lparr>heap := (heap s)(a := R0),
           nextAddr := Suc a, currentResearch := Some a,
           ticks := Suc (Suc (ticks s)), draws := Suc (draws s), formDisabled := True\<rparr>"
  have e0: "startResearch_begin w tp dp s = Ok s0"
    by (simp add: startResearch_begin_eff s0_def R0_def a)
  have c0: "currentResearch s0 = Some a" by (simp add: s0_def)
  have h0: "heap s0 a = R0" by (simp add: s0_def)
  have d0: "draws s0 = Suc (draws s)" by (simp add: s0_def)
  \<comment> \<open>step 1\<close>
  define b1 where "b1 = state_of (executeStep_begin w 1 ''Input Parsing'' s0)"
  have eb1: "executeStep_begin w 1 ''Input Parsing'' s0 = Ok b1"
    and sb1: "stepped a (\<lambda>r. r\<lparr>currentStep := 1\<rparr>) (\<lambda>x. x) s0 b1"
    using begin_phase[OF c0, of w 1 "''Input Parsing''"] returned_Ok by (simp_all add: b1_def)
  have cb1: "currentResearch b1 = Some a"
    using stepped_sel[OF sb1, of currentResearch] c0 by simp
  define f1 where "f1 = state_of (executeStep_finish w 1 ''Input Parsing'' b1)"
  have ef1: "executeStep_finish w 1 ''Input Parsing'' b1 = Ok f1"
    and sf1: "stepped a (\<lambda>r. r\<lparr>progress := 20\<rparr>) (\<lambda>x. x) b1 f1"
    using finish1[OF cb1, of w "''Input Parsing''"] returned_Ok by (simp_all add: f1_def)
  have cf1: "currentResearch f1 = Some a"
    using stepped_sel[OF sf1, of currentResearch] cb1 by simp
  \<comment> \<open>step 2\<close>
  define b2 where "b2 = state_of (executeStep_begin w 2 ''Data Gathering'' f1)"
  have eb2: "executeStep_begin w 2 ''Data Gathering'' f1 = Ok b2"
    and sb2: "stepped a (\<lambda>r. r\<lparr>currentStep := 2\<rparr>) (\<lambda>x. x) f1 b2"
    using begin_phase[OF cf1, of w 2 "''Data Gathering''"] returned_Ok by (simp_all add: b2_def)
  have cb2: "currentResearch b2 = Some a"
    using stepped_sel[OF sb2, of currentResearch] cf1 by simp
  have tb2: "topic (heap b2 a) = tp"
    using stepped_rec[OF sb2, of topic] stepped_rec[OF sf1, of topic]
      stepped_rec[OF sb1, of topic] h0 by (simp add: R0_def)
  have db2: "draws b2 = Suc (draws s)"
    using stepped_sel[OF sb2, of draws] stepped_sel[OF sf1, of draws]
      stepped_sel[OF sb1, of draws] d0 by simp
  define raw where "raw = \<lparr>wikipedia = fst (fetchWikipediaArticles (random w) tp (Suc (draws s))),
            hackernews = fst (fetchHackerNewsArticles (random w) tp
                (snd (fetchWikipediaArticles (random w) tp (Suc (draws s)))))\<rparr>"
  define f2 where "f2 = state_of (executeStep_finish w 2 ''Data Gathering'' b2)"
  have ef2: "executeStep_finish w 2 ''Data Gathering'' b2 = Ok f2"
    using finish2[OF cb2, of w "''Data Gathering''"] returned_Ok by (simp add: f2_def)
  have sf2': "stepped a (\<lambda>r. r\<lparr>progress := 40, rawData := Some
            \<lparr>wikipedia = fst (fetchWikipediaArticles (random w) (topic r) (draws b2)),
             hackernews = fst (fetchHackerNewsArticles (random w) (topic r)
                 (snd (fetchWikipediaArticles (random w) (topic r) (draws b2))))\<rparr>\<rparr>)
     (\<lambda>x. x\<lparr>draws := snd (fetchHackerNewsArticles (random w) (topic (heap b2 a))
                 (snd (fetchWikipediaArticles (random w) (topic (heap b2 a)) (draws b2))))\<rparr>) b2 f2"
    using finish2[OF cb2, of w "''Data Gathering''"] by (simp add: f2_def)
  have df2: "draws f2 = snd (fetchHackerNewsArticles (random w) (topic (heap b2 a))
                 (snd (fetchWikipediaArticles (random w) (topic (heap b2 a)) (draws b2))))"
    using stepped_sel[OF sf2', of draws] by simp
  have sf2: "stepped a (\<lambda>r. r\<lparr>progress := 40, rawData := Some raw\<rparr>) (\<lambda>x. x\<lparr>draws := draws f2\<rparr>) b2 f2"
    by (rule stepped_cong[OF sf2']) (simp_all add: tb2 db2 raw_def df2)
  have cf2: "currentResearch f2 = Some a"
    using stepped_sel[OF sf2, of currentResearch] cb2 by simp
  have rf2: "rawData (heap f2 a) = Some raw"
    using stepped_rec[OF sf2, of rawData] by simp
  \<comment> \<open>step 3\<close>
  define b3 where "b3 = state_of (executeStep_begin w 3 ''Processing'' f2)"
  have eb3: "executeStep_begin w 3 ''Processing'' f2 = Ok b3"
    and sb3: "stepped a (\<lambda>r. r\<lparr>currentStep := 3\<rparr>) (\<lambda>x. x) f2 b3"
    using begin_phase[OF cf2, of w 3 "''Processing''"] returned_Ok by (simp_all add: b3_def)
  have cb3: "currentResearch b3 = Some a"
    using stepped_sel[OF sb3, of currentResearch] cf2 by simp
  have rb3: "rawData (heap b3 a) = Some raw"
    using stepped_rec[OF sb3, of rawData] rf2 by simp
  have tb3: "topic (heap b3 a) = tp"
    using stepped_rec[OF sb3, of topic] stepped_rec[OF sf2, of topic] tb2 by simp
  have pb3: "depth (heap b3 a) = dp"
    using stepped_rec[OF sb3, of depth] stepped_rec[OF sf2, of depth]
      stepped_rec[OF sb2, of depth] stepped_rec[OF sf1, of depth]
      stepped_rec[OF sb1, of depth] h0 by (simp add: R0_def)
  define pd where "pd = \<lparr>pd_sources = topSourcesOf dp raw,
           pd_summary = generateSummary tp (topSourcesOf dp raw),
           pd_keywords = extractKeywords tp (topSourcesOf dp raw)\<rparr>"
  define f3 where "f3 = state_of (executeStep_finish w 3 ''Processing'' b3)"
  have ef3: "executeStep_finish w 3 ''Processing'' b3 = Ok f3"
    using finish3[OF cb3 rb3, of w "''Processing''"] returned_Ok by (simp add: f3_def)
  have sf3': "stepped a (\<lambda>r. r\<lparr>progress := 60, processedData := Some
            \<lparr>pd_sources = topSourcesOf (depth r) raw,
             pd_summary = generateSummary (topic r) (topSourcesOf (depth r) raw),
             pd_keywords = extractKeywords (topic r) (topSourcesOf (depth r) raw)\<rparr>\<rparr>) (\<lambda>x. x) b3 f3"
    using finish3[OF cb3 rb3, of w "''Processing''"] by (simp add: f3_def)
  have sf3: "stepped a (\<lambda>r. r\<lparr>progress := 60, processedData := Some pd\<rparr>) (\<lambda>x. x) b3 f3"
    by (rule stepped_cong[OF sf3']) (simp_all add: tb3 pb3 pd_def)
  have cf3: "currentResearch f3 = Some a"
    using stepped_sel[OF sf3, of currentResearch] cb3 by simp
  \<comment> \<open>step 4\<close>
  define b4 where "b4 = state_of (executeStep_begin w 4 ''Result Persistence'' f3)"
  have eb4: "executeStep_begin w 4 ''Result Persistence'' f3 = Ok b4"
    and sb4: "stepped a (\<lambda>r. r\<lparr>currentStep := 4\<rparr>) (\<lambda>x. x) f3 b4"
    using begin_phase[OF cf3, of w 4 "''Result Persistence''"] returned_Ok
    by (simp_all add: b4_def)
  have cb4: "currentResearch b4 = Some a"
    using stepped_sel[OF sb4, of currentResearch] cf3 by simp
  have pb4: "processedData (heap b4 a) = Some pd"
    using stepped_rec[OF sb4, of processedData] stepped_rec[OF sf3, of processedData] by simp
  have db4: "depth (heap b4 a) = dp"
    using stepped_rec[OF sb4, of depth] stepped_rec[OF sf3, of depth] pb3 by simp
  have stb4: "startTime (heap b4 a) = clock w (Suc (ticks s))"
    using stepped_rec[OF sb4, of startTime] stepped_rec[OF sf3, of startTime]
      stepped_rec[OF sb3, of startTime] stepped_rec[OF sf2, of startTime]
      stepped_rec[OF sb2, of startTime] stepped_rec[OF sf1, of startTime]
      stepped_rec[OF sb1, of startTime] h0 by (simp add: R0_def)
  define res where "res = \<lparr>res_summary = pd_summary pd, res_sources = pd_sources pd,
            res_keywords = pd_keywords pd,
            metadata = \<lparr>totalSources = length (pd_sources pd), researchDepth = dp,
                        processingTime = clock w (Suc (ticks b4)) - clock w (Suc (ticks s))\<rparr>\<rparr>"
  define p4 where "p4 = state_of (persistResults_toPrepend w b4)"
  have ep4: "persistResults_toPrepend w b4 = Ok p4"
    using toPrepend_eff[OF cb4 pb4, of w] returned_Ok by (simp add: p4_def)
  have sp4: "stepped a (\<lambda>r. r\<lparr>results := Some res\<rparr>)
       (\<lambda>x. x\<lparr>researchHistory := a # researchHistory x, writes := Suc (writes x),
              localStorage := localStorage p4\<rparr>) b4 p4"
    by (rule stepped_cong[OF conjunct2[OF toPrepend_eff[OF cb4 pb4, of w], folded p4_def]])
       (simp_all add: res_def db4 stb4)
  have cp4: "currentResearch p4 = Some a"
    using stepped_sel[OF sp4, of currentResearch] cb4 by simp
  define f4 where "f4 = state_of (finish4_afterPrepend w ''Result Persistence'' p4)"
  have ea4: "finish4_afterPrepend w ''Result Persistence'' p4 = Ok f4"
    and sf4: "stepped a (\<lambda>r. r\<lparr>progress := 80\<rparr>) (\<lambda>x. x) p4 f4"
    using afterPrepend_eff[OF cp4, of w "''Result Persistence''"] returned_Ok
    by (simp_all add: f4_def)
  have ef4: "executeStep_finish w 4 ''Result Persistence'' b4 = Ok f4"
    by (simp add: finish4_cut ep4 ea4)
  have cf4: "currentResearch f4 = Some a"
    using stepped_sel[OF sf4, of currentResearch] cp4 by simp
  \<comment> \<open>step 5\<close>
  define b5 where "b5 = state_of (executeStep_begin w 5 ''Return Results'' f4)"
  have eb5: "executeStep_begin w 5 ''Return Results'' f4 = Ok b5"
    and sb5: "stepped a (\<lambda>r. r\<lparr>currentStep := 5\<rparr>) (\<lambda>x. x) f4 b5"
    using begin_phase[OF cf4, of w 5 "''Return Results''"] returned_Ok by (simp_all add: b5_def)
  have cb5: "currentResearch b5 = Some a"
    using stepped_sel[OF sb5, of currentResearch] cf4 by simp
  have rb5: "results (heap b5 a) = Some res"
    using stepped_rec[OF sb5, of results] stepped_rec[OF sf4, of results]
      stepped_rec[OF sp4, of results] by simp
  define f5 where "f5 = state_of (executeStep_finish w 5 ''Return Results'' b5)"
  have ef5: "executeStep_finish w 5 ''Return Results'' b5 = Ok f5"
    and sf5: "stepped a (\<lambda>r. r\<lparr>progress := 100, status := ''completed'',
                      endTime := Some (clock w (Suc (ticks b5)))\<rparr>)
       (\<lambda>x. x\<lparr>formDisabled := False\<rparr>) b5 f5"
    using finish5[OF cb5 rb5, of w "''Return Results''"] returned_Ok by (simp_all add: f5_def)
  have x1: "executeStep w 1 ''Input Parsing'' s0 = Ok f1"
    using eb1 ef1 by (simp add: executeStep_def)
  have x2: "executeStep w 2 ''Data Gathering'' f1 = Ok f2"
    using eb2 ef2 by (simp add: executeStep_def)
  have x3: "executeStep w 3 ''Processing'' f2 = Ok f3"
    using eb3 ef3 by (simp add: executeStep_def)
  have x4: "executeStep w 4 ''Result Persistence'' f3 = Ok f4"
    using eb4 ef4 by (simp add: executeStep_def)
  have x5: "executeStep w 5 ''Return Results'' f4 = Ok f5"
    using eb5 ef5 by (simp add: executeStep_def)
  have tr: "runTrace w tp dp s = [s0, b1, f1, b2, f2, b3, f3, b4, f4, b5, f5]"
    using e0 eb1 ef1 eb2 ef2 eb3 ef3 eb4 ef4 eb5 ef5
    by (simp add: runTrace_def workflowTrace_steps)
  have tp4: "runToPrepend w tp dp s = Ok p4"
    using e0 x1 x2 x3 eb4 ep4 by (simp add: runToPrepend_def)
  have ap4: "runAfterPrepend w p4 = Threw (TypeError ''this.completeResearch is not a function'') f5"
    using ea4 x5 by (simp add: runAfterPrepend_def completeResearch_def)
  have fin: "startResearch w tp dp s = Threw (TypeError ''this.completeResearch is not a function'') f5"
    using e0 x1 x2 x3 x4 x5
    by (simp add: startResearch_def runResearchWorkflow_def workflowLoop_steps
        completeResearch_def)
  show thesis
    by (rule that[OF e0 s0_def[unfolded R0_def] eb1 sb1 ef1 sf1 eb2 sb2 ef2 sf2 raw_def eb3 sb3 ef3 sf3
          pd_def eb4 sb4 ep4 sp4 res_def ea4 sf4 ef4 eb5 sb5 ef5 sf5 tr tp4 ap4 fin])
qed

subsection \<open>Sources of a run\<close>















lemma run_completed:
  assumes a: "a = nextAddr s"
  obtains raw res e where
    "startResearch w tp dp s = Threw (TypeError ''this.completeResearch is not a function'') e"
    "currentResearch e = Some a"
    "researchHistory e = a # researchHistory s"
    "nextAddr e = Suc a"
    "\<not> formDisabled e"
    "\<And>b. b \<noteq> a \<Longrightarrow> heap e b = heap s b"
    "status (heap e a) = ''completed''"
    "endTime (heap e a) \<noteq> None"
    "topic (heap e a) = tp"
    "depth (heap e a) = dp"
    "results (heap e a) = Some res"
    "rawData (heap e a) = Some raw"
    "res_sources res = topSourcesOf dp raw"
    "totalSources (metadata res) = length (res_sources res)"
    "res_summary res = generateSummary tp (res_sources res)"
    "res_keywords res = extractKeywords tp (res_sources res)"
    "wikipedia raw = fst (fetchWikipediaArticles (random w) tp (Suc (draws s)))"
    "hackernews raw = fst (fetchHackerNewsArticles (random w) tp
                (snd (fetchWikipediaArticles (random w) tp (Suc (draws s)))))"
proof (rule run_chain[OF a, of w tp dp], goal_cases)
  case (1 s0 b1 f1 b2 f2 b3 f3 b4 p4 f4 b5 f5 raw pd res)
  note s0 = 1(3) and sb1 = 1(5) and sf1 = 1(7) and sb2 = 1(9) and sf2 = 1(11) and raw = 1(12)
    and sb3 = 1(14) and sf3 = 1(16) and pd = 1(17) and sb4 = 1(19) and sp4 = 1(21)
    and res = 1(22) and sf4 = 1(24) and sb5 = 1(27) and sf5 = 1(29) and fin = 1(33)
  note all = sb1 sf1 sb2 sf2 sb3 sf3 sb4 sp4 sf4 sb5 sf5
  have cur: "currentResearch f5 = Some a"
    using all[THEN stepped_sel, of currentResearch] by (simp add: s0)
  have hist: "researchHistory f5 = a # researchHistory s"
    using all[THEN stepped_sel, of researchHistory] by (simp add: s0)
  have nxt: "nextAddr f5 = Suc a"
    using all[THEN stepped_sel, of nextAddr] by (simp add: s0)
  have form: "\<not> formDisabled f5"
    using stepped_sel[OF sf5, of formDisabled] by simp
  have other: "heap f5 b = heap s b" if "b \<noteq> a" for b
    using all[THEN stepped_other, OF that] by (simp add: s0 that)
  have st: "status (heap f5 a) = ''completed''"
    using stepped_rec[OF sf5, of status] by simp
  have en: "endTime (heap f5 a) \<noteq> None"
    using stepped_rec[OF sf5, of endTime] by simp
  have tpc: "topic (heap f5 a) = tp"
    using all[THEN stepped_rec, of topic] by (simp add: s0)
  have dpc: "depth (heap f5 a) = dp"
    using all[THEN stepped_rec, of depth] by (simp add: s0)
  have rs: "results (heap f5 a) = Some res"
    using stepped_rec[OF sf5, of results] stepped_rec[OF sb5, of results]
      stepped_rec[OF sf4, of results] stepped_rec[OF sp4, of results] by simp
  have rw: "rawData (heap f5 a) = Some raw"
    using stepped_rec[OF sf5, of rawData] stepped_rec[OF sb5, of rawData]
      stepped_rec[OF sf4, of rawData] stepped_rec[OF sp4, of rawData]
      stepped_rec[OF sb4, of rawData] stepped_rec[OF sf3, of rawData]
      stepped_rec[OF sb3, of rawData] stepped_rec[OF sf2, of rawData] by simp
  show ?case
    by (rule that[OF fin cur hist nxt form other st en tpc dpc rs rw])
       (simp_all add: res pd raw)
qed

subsection \<open>Submission, the history and the frame of a run\<close>

lemma handleSubmit_run:
  "trim tv \<noteq> [] \<Longrightarrow> handleSubmit w tv dv s = startResearch w (trim tv) dv s"
  by (simp add: handleSubmit_def Let_def)


lemma loadResearchFromHistory_heap:
  "heap (state_of (loadResearchFromHistory rid s)) = heap s"
  by (simp add: loadResearchFromHistory_def showResults_def populateResults_def enableForm_def
      split: option.splits)

lemma handleSubmit_frame:
  assumes "b < nextAddr s"
  shows "heap (state_of (handleSubmit w tv dv s)) b = heap s b"
proof (cases "trim tv = []")
  case True
  then show ?thesis by (simp add: handleSubmit_def showError_def)
next
  case False
  show ?thesis
  proof (rule run_completed[OF refl, where s = s and w = w and tp = "trim tv" and dp = dv],
      goal_cases)
    case (1 raw res e)
    note fin = 1(1) and other = 1(6)
    from assms have "b \<noteq> nextAddr s" by simp
    then show ?case
      using handleSubmit_run[OF False, of w dv s] fin other by simp
  qed
qed

lemma prepend_to_end:
  assumes a: "a = nextAddr s"
  obtains p e t where
    "runToPrepend w tp dp s = Ok p"
    "runAfterPrepend w p = Threw (TypeError ''this.completeResearch is not a function'') e"
    "startResearch w tp dp s = Threw (TypeError ''this.completeResearch is not a function'') e"
    "currentResearch p = Some a"
    "researchHistory p = a # researchHistory s"
    "researchHistory e = researchHistory p"
    "status (heap p a) = ''running''"
    "endTime (heap p a) = None"
    "progress (heap p a) = 60"
    "currentStep (heap p a) = 4"
    "results (heap p a) \<noteq> None"
    "\<And>L. (heap e a)\<lparr>logs := L\<rparr>
        = (heap p a)\<lparr>logs := L, currentStep := 5, progress := 100, status := ''completed'',
                      endTime := Some t\<rparr>"
    "prefix (logs (heap p a)) (logs (heap e a))"
    "writes p = Suc (writes s)"
    "setItemOk w (writes s) \<Longrightarrow>
       localStorage p = Some (JSON_stringify (map (heap p) (researchHistory p)))"
    "localStorage e = localStorage p"
proof (rule run_chain[OF a, of w tp dp], goal_cases)
  case (1 s0 b1 f1 b2 f2 b3 f3 b4 p4 f4 b5 f5 raw pd res)
  note s0 = 1(3) and sb1 = 1(5) and sf1 = 1(7) and sb2 = 1(9) and sf2 = 1(11) and raw = 1(12)
    and sb3 = 1(14) and sf3 = 1(16) and pd = 1(17) and sb4 = 1(19) and ep4 = 1(20) and sp4 = 1(21)
    and res = 1(22) and sf4 = 1(24) and sb5 = 1(27) and sf5 = 1(29)
    and tp4 = 1(31) and ap4 = 1(32) and fin = 1(33)
  note upto = sb1 sf1 sb2 sf2 sb3 sf3 sb4 sp4
  note upto4 = sb1 sf1 sb2 sf2 sb3 sf3 sb4
  note after = sf4 sb5 sf5
  have cur: "currentResearch p4 = Some a"
    using upto[THEN stepped_sel, of currentResearch] by (simp add: s0)
  have hist: "researchHistory p4 = a # researchHistory s"
    using upto[THEN stepped_sel, of researchHistory] by (simp add: s0)
  have hist': "researchHistory f5 = researchHistory p4"
    using after[THEN stepped_sel, of researchHistory] by simp
  have st: "status (heap p4 a) = ''running''"
    using upto[THEN stepped_rec, of status] by (simp add: s0)
  have en: "endTime (heap p4 a) = None"
    using upto[THEN stepped_rec, of endTime] by (simp add: s0)
  have pg: "progress (heap p4 a) = 60"
    using stepped_rec[OF sp4, of progress] stepped_rec[OF sb4, of progress]
      stepped_rec[OF sf3, of progress] by simp
  have cs: "currentStep (heap p4 a) = 4"
    using stepped_rec[OF sp4, of currentStep] stepped_rec[OF sb4, of currentStep] by simp
  have rs: "results (heap p4 a) \<noteq> None"
    using stepped_rec[OF sp4, of results] by simp
  have u4: "(heap f4 a)\<lparr>logs := L\<rparr> = (heap p4 a)\<lparr>logs := L, progress := 80\<rparr>" for L
    using sf4 by (simp add: stepped_def)
  have u5: "(heap b5 a)\<lparr>logs := L\<rparr> = (heap f4 a)\<lparr>logs := L, currentStep := 5\<rparr>" for L
    using sb5 by (simp add: stepped_def)
  have u6: "(heap f5 a)\<lparr>logs := L\<rparr>
      = (heap b5 a)\<lparr>logs := L, progress := 100, status := ''completed'',
                      endTime := Some (clock w (Suc (ticks b5)))\<rparr>" for L
    using sf5 by (simp add: stepped_def)
  have upd: "(heap f5 a)\<lparr>logs := L\<rparr>
        = (heap p4 a)\<lparr>logs := L, currentStep := 5, progress := 100, status := ''completed'',
                      endTime := Some (clock w (Suc (ticks b5)))\<rparr>" for L
  proof -
    have "(heap f5 a)\<lparr>logs := L\<rparr>
      = ((heap b5 a)\<lparr>logs := L\<rparr>)\<lparr>progress := 100, status := ''completed'',
                      endTime := Some (clock w (Suc (ticks b5)))\<rparr>"
      by (simp add: u6)
    also have "\<dots> = ((heap f4 a)\<lparr>logs := L\<rparr>)\<lparr>currentStep := 5, progress := 100,
                      status := ''completed'', endTime := Some (clock w (Suc (ticks b5)))\<rparr>"
      by (simp only: u5)
    also have "\<dots> = ((heap p4 a)\<lparr>logs := L, progress := 80\<rparr>)\<lparr>currentStep := 5, progress := 100,
                      status := ''completed'', endTime := Some (clock w (Suc (ticks b5)))\<rparr>"
      by (simp only: u4)
    finally show ?thesis by simp
  qed
  have pre: "prefix (logs (heap p4 a)) (logs (heap f5 a))"
    using stepped_logs[OF sf4] stepped_logs[OF sb5] stepped_logs[OF sf5]
    by (meson prefix_order.order_trans)
  have wr4: "writes b4 = writes s"
    using upto4[THEN stepped_sel, of writes] by (simp add: s0)
  have wr: "writes p4 = Suc (writes s)"
    using stepped_sel[OF sp4, of writes] wr4 by simp
  have cb4: "currentResearch b4 = Some a"
    using upto4[THEN stepped_sel, of currentResearch] by (simp add: s0)
  have pb4: "processedData (heap b4 a) \<noteq> None"
    using stepped_rec[OF sb4, of processedData] stepped_rec[OF sf3, of processedData] by simp
  have sto: "localStorage p4 = Some (JSON_stringify (map (heap p4) (researchHistory p4)))"
    if "setItemOk w (writes s)"
  proof -
    define m where "m = state_of (addLog w ''Saving results to local storage...'' b4)"
    have em: "addLog w ''Saving results to local storage...'' b4 = Ok m"
      unfolding m_def by (simp add: addLog_Some[OF cb4])
    have cm: "currentResearch m = Some a" and wm: "writes m = writes s"
      and pm: "processedData (heap m a) \<noteq> None"
      unfolding m_def using cb4 wr4 pb4 by (simp_all add: addLog_Some[OF cb4])
    from pm obtain pd' where pm': "processedData (heap m a) = Some pd'" by blast
    have "p4 = state_of (persistResults_body w m)"
      using ep4 em by (simp add: persistResults_toPrepend_def split: result.splits)
    then show ?thesis
      using persist_body_eff[OF cm pm', of w] that wm by simp
  qed
  have ls: "localStorage f5 = localStorage p4"
    using after[THEN stepped_sel, of localStorage] by simp
  show ?case
    by (rule that[OF tp4 ap4 fin cur hist hist' st en pg cs rs upd pre wr sto ls])
qed



lemma run_trace_values:
  "map (\<lambda>x. currentStep (heap x (nextAddr s))) (runTrace w tp dp s)
       = [1, 1, 1, 2, 2, 3, 3, 4, 4, 5, 5]
   \<and> map (\<lambda>x. progress (heap x (nextAddr s))) (runTrace w tp dp s)
       = [0, 0, 20, 20, 40, 40, 60, 60, 80, 80, 100]
   \<and> map (\<lambda>x. status (heap x (nextAddr s))) (runTrace w tp dp s)
       = [''running'', ''running'', ''running'', ''running'', ''running'', ''running'',
          ''running'', ''running'', ''running'', ''running'', ''completed'']
   \<and> map currentResearch (runTrace w tp dp s) = replicate 11 (Some (nextAddr s))
   \<and> last (runTrace w tp dp s) = state_of (startResearch w tp dp s)"
proof (rule run_chain[OF refl, where s = s and w = w and tp = tp and dp = dp], goal_cases)
  case (1 s0 b1 f1 b2 f2 b3 f3 b4 p4 f4 b5 f5 raw pd res)
  note s0 = 1(2) and sb1 = 1(4) and sf1 = 1(6) and sb2 = 1(8) and sf2 = 1(10)
    and sb3 = 1(13) and sf3 = 1(15) and sb4 = 1(18) and sp4 = 1(20)
    and sf4 = 1(23) and sb5 = 1(26) and sf5 = 1(28) and tr = 1(29) and fin = 1(32)
  note all = sb1 sf1 sb2 sf2 sb3 sf3 sb4 sp4 sf4 sb5 sf5
  have cs: "map (\<lambda>x. currentStep (heap x (nextAddr s))) [s0, b1, f1, b2, f2, b3, f3, b4, f4, b5, f5]
       = [1, 1, 1, 2, 2, 3, 3, 4, 4, 5, 5]"
    using all[THEN stepped_rec, of currentStep] by (simp add: s0)
  have pg: "map (\<lambda>x. progress (heap x (nextAddr s))) [s0, b1, f1, b2, f2, b3, f3, b4, f4, b5, f5]
       = [0, 0, 20, 20, 40, 40, 60, 60, 80, 80, 100]"
    using all[THEN stepped_rec, of progress] by (simp add: s0)
  have st: "map (\<lambda>x. status (heap x (nextAddr s))) [s0, b1, f1, b2, f2, b3, f3, b4, f4, b5, f5]
       = [''running'', ''running'', ''running'', ''running'', ''running'', ''running'',
          ''running'', ''running'', ''running'', ''running'', ''completed'']"
    using all[THEN stepped_rec, of status] by (simp add: s0)
  have cr: "map currentResearch [s0, b1, f1, b2, f2, b3, f3, b4, f4, b5, f5]
       = replicate 11 (Some (nextAddr s))"
    using all[THEN stepped_sel, of currentResearch] by (simp add: s0 eval_nat_numeral)
  show ?case
    using cs pg st cr by (simp add: tr fin)
qed

lemma init_throws: "newAgent saved = Inr ag \<Longrightarrow> init ag = Threw nullError ag"
  by (auto simp: newAgent_def init_def setupProgressTracking_def updateProgressBar_def
      split: sum.splits)




section \<open>The claims\<close>








text \<open>
  C8. When the stored text cannot be parsed, \<open>loadHistory\<close> returns the empty list and
  does not throw, and the agent is constructed with an empty history.
\<close>

theorem corrupt_history_loads_empty:
  assumes "JSON_parse txt = Inl e"
  shows "loadHistory (Some txt) = Inr []
         \<and> (\<exists>ag. newAgent (Some txt) = Inr ag \<and> researchHistory ag = []
                \<and> currentResearch ag = None \<and> nextAddr ag = 0)"
  using assms by (simp add: loadHistory_def loadHistory_try_def newAgent_def)

theorem corrupt_history_loads_empty_witness:
  "JSON_parse (Malformed ''{not json'') = Inl (SyntaxError ''{not json'')
   \<and> loadHistory (Some (Malformed ''{not json'')) = Inr []"
  using corrupt_history_loads_empty[of "Malformed ''{not json''" "SyntaxError ''{not json''"]
  by simp

text \<open>
  C5. In every run \<open>currentStep\<close> is 1 at creation and then takes the values
  1, 2, 3, 4, 5 in this order, each set once at the start of its step, and the progress at
  the end of step \<open>k\<close> is \<open>k * 20\<close> (\<open>k / 5 * 100\<close>; the floating-point
  evaluation of \<open>(k / 5) * 100\<close> gives exactly 20, 40, 60, 80 and 100 too). The trace
  lists the page after the creation of the research object and after the first and the
  second part of each of the five steps; the status is \<open>running\<close> until the last entry.
\<close>

theorem currentStep_progress_trace:
  "map (\<lambda>x. currentStep (heap x (nextAddr s))) (runTrace w tp dp s)
       = [1, 1, 1, 2, 2, 3, 3, 4, 4, 5, 5]
   \<and> map (\<lambda>x. progress (heap x (nextAddr s))) (runTrace w tp dp s)
       = [0, 0, 20, 20, 40, 40, 60, 60, 80, 80, 100]
   \<and> map (\<lambda>x. status (heap x (nextAddr s))) (runTrace w tp dp s)
       = [''running'', ''running'', ''running'', ''running'', ''running'', ''running'',
          ''running'', ''running'', ''running'', ''running'', ''completed'']
   \<and> map currentResearch (runTrace w tp dp s) = replicate 11 (Some (nextAddr s))
   \<and> last (runTrace w tp dp s) = state_of (startResearch w tp dp s)"
  by (rule run_trace_values)





text \<open>
  C7. When the write to local storage succeeds, then at the moment step 4 has put the
  research object at the front of the history and saved it, loading the stored text gives
  the history's objects as they are in memory, the new one first; in general writing a
  list of research objects and loading it gives the same list, so \<open>startTime\<close> and
  \<open>endTime\<close> come back as the same instants (an unset \<open>endTime\<close> as unset).
\<close>

theorem append_then_load:
  assumes "setItemOk w (writes s)"
  shows "returned (runToPrepend w tp dp s)
     \<and> startResearch w tp dp s = seq [runToPrepend w tp dp, runAfterPrepend w] s
     \<and> currentResearch (state_of (runToPrepend w tp dp s)) = Some (nextAddr s)
     \<and> researchHistory (state_of (runToPrepend w tp dp s)) = nextAddr s # researchHistory s
     \<and> loadHistory (localStorage (state_of (runToPrepend w tp dp s)))
         = Inr (heap (state_of (runToPrepend w tp dp s)) (nextAddr s)
                # map (heap (state_of (runToPrepend w tp dp s))) (researchHistory s))
     \<and> loadHistory (Some (JSON_stringify rs)) = Inr rs
     \<and> revive (toJSON r) = r
     \<and> startTime (revive (toJSON r)) = startTime r
     \<and> endTime (revive (toJSON r)) = endTime r
     \<and> newDateOfString (toISOString t) = t"
proof (rule prepend_to_end[OF refl, where s = s and w = w and tp = tp and dp = dp], goal_cases)
  case (1 p e t')
  note tp = 1(1) and cur = 1(4) and hist = 1(5) and sto = 1(15)
  have P: "state_of (runToPrepend w tp dp s) = p" using tp by simp
  have ret: "returned (runToPrepend w tp dp s)" using tp by simp
  have ld: "loadHistory (localStorage p) = Inr (heap p (nextAddr s) # map (heap p) (researchHistory s))"
    using sto[OF assms] hist by (simp add: loadHistory_stringify)
  have rt: "revive (toJSON r) = r" by (rule revive_toJSON)
  have t1: "startTime (revive (toJSON r)) = startTime r" by (simp add: revive_toJSON)
  have t2: "endTime (revive (toJSON r)) = endTime r" by (simp add: revive_toJSON)
  have t3: "newDateOfString (toISOString t) = t" by (simp add: toISOString_def)
  show ?case
    unfolding P
    by (intro conjI ret run_cut cur hist ld loadHistory_stringify rt t1 t2 t3)
qed

theorem append_then_load_witness:
  "setItemOk testWorld (writes initialAgent)
   \<and> researchHistory (state_of (runToPrepend testWorld ''AI'' ''basic'' initialAgent))
       = nextAddr initialAgent # researchHistory initialAgent
   \<and> loadHistory (localStorage (state_of (runToPrepend testWorld ''AI'' ''basic'' initialAgent)))
       = Inr (heap (state_of (runToPrepend testWorld ''AI'' ''basic'' initialAgent))
                (nextAddr initialAgent)
              # map (heap (state_of (runToPrepend testWorld ''AI'' ''basic'' initialAgent)))
                  (researchHistory initialAgent))"
proof -
  have ok: "setItemOk testWorld (writes initialAgent)"
    by (simp add: testWorld_def)
  note T = append_then_load[OF ok, of "''AI''" "''basic''"]
  show ?thesis
    by (intro conjI ok conjunct1[OF conjunct2[OF conjunct2[OF conjunct2[OF T]]]]
        conjunct1[OF conjunct2[OF conjunct2[OF conjunct2[OF conjunct2[OF T]]]]])
qed

text \<open>
  C4 (amended). When step 4 has put the research object into the history, the object is
  still the current one and is still written until the run ends: log entries are appended,
  \<open>currentStep\<close> becomes 5, \<open>progress\<close> 100, \<open>status\<close> \<open>completed\<close> and
  \<open>endTime\<close> is set; every other field keeps its value. After that, a later
  uninterrupted submission and a look-up in the history write no research object that
  existed before. The copy in local storage, when its write succeeded, is not written
  again during the run: at the end it still holds the objects as they were when the new
  one was handed over.
\<close>

theorem record_after_prepend:
  "startResearch w tp dp s = seq [runToPrepend w tp dp, runAfterPrepend w] s
   \<and> returned (runToPrepend w tp dp s)
   \<and> currentResearch (state_of (runToPrepend w tp dp s)) = Some (nextAddr s)
   \<and> researchHistory (state_of (runToPrepend w tp dp s)) = nextAddr s # researchHistory s
   \<and> researchHistory (state_of (startResearch w tp dp s)) = nextAddr s # researchHistory s
   \<and> status (heap (state_of (runToPrepend w tp dp s)) (nextAddr s)) = ''running''
   \<and> endTime (heap (state_of (runToPrepend w tp dp s)) (nextAddr s)) = None
   \<and> progress (heap (state_of (runToPrepend w tp dp s)) (nextAddr s)) = 60
   \<and> currentStep (heap (state_of (runToPrepend w tp dp s)) (nextAddr s)) = 4
   \<and> (\<exists>t. \<forall>L. (heap (state_of (startResearch w tp dp s)) (nextAddr s))\<lparr>logs := L\<rparr>
          = (heap (state_of (runToPrepend w tp dp s)) (nextAddr s))
              \<lparr>logs := L, currentStep := 5, progress := 100, status := ''completed'',
               endTime := Some t\<rparr>)
   \<and> prefix (logs (heap (state_of (runToPrepend w tp dp s)) (nextAddr s)))
             (logs (heap (state_of (startResearch w tp dp s)) (nextAddr s)))
   \<and> (b < nextAddr s' \<longrightarrow> heap (state_of (handleSubmit w' tv dv s')) b = heap s' b)
   \<and> heap (state_of (loadResearchFromHistory researchId s')) = heap s'
   \<and> (setItemOk w (writes s)
        \<longrightarrow> loadHistory (localStorage (state_of (startResearch w tp dp s)))
            = Inr (map (heap (state_of (runToPrepend w tp dp s))) (nextAddr s # researchHistory s)))"
proof (rule prepend_to_end[OF refl, where s = s and w = w and tp = tp and dp = dp], goal_cases)
  case (1 p e t)
  note tp = 1(1) and fin = 1(3) and cur = 1(4) and hist = 1(5) and hist' = 1(6) and st = 1(7)
    and en = 1(8) and pg = 1(9) and cs = 1(10) and upd = 1(12) and pre = 1(13)
    and sto = 1(15) and ls = 1(16)
  have stored: "setItemOk w (writes s)
        \<longrightarrow> loadHistory (localStorage e) = Inr (map (heap p) (nextAddr s # researchHistory s))"
    using sto ls hist by (simp add: loadHistory_stringify)
  have P: "state_of (runToPrepend w tp dp s) = p" using tp by simp
  have E: "state_of (startResearch w tp dp s) = e" using fin by simp
  have ret: "returned (runToPrepend w tp dp s)" using tp by simp
  have histe: "researchHistory e = nextAddr s # researchHistory s" using hist hist' by simp
  have frame: "b < nextAddr s' \<longrightarrow> heap (state_of (handleSubmit w' tv dv s')) b = heap s' b"
    using handleSubmit_frame[of b s' w' tv dv] by blast
  have ex: "\<exists>t. \<forall>L. (heap e (nextAddr s))\<lparr>logs := L\<rparr>
          = (heap p (nextAddr s))\<lparr>logs := L, currentStep := 5, progress := 100,
                                   status := ''completed'', endTime := Some t\<rparr>"
    using upd by blast
  show ?case
    unfolding P E
    by (intro conjI run_cut ret cur hist histe st en pg cs ex pre frame
        loadResearchFromHistory_heap stored)
qed

theorem record_after_prepend_witness:
  "(0::nat) < nextAddr (state_of (startResearch testWorld ''AI'' ''basic'' initialAgent))
   \<and> heap (state_of (handleSubmit testWorld ''ML'' ''detailed''
              (state_of (startResearch testWorld ''AI'' ''basic'' initialAgent)))) 0
       = heap (state_of (startResearch testWorld ''AI'' ''basic'' initialAgent)) 0
   \<and> status (heap (state_of (startResearch testWorld ''AI'' ''basic'' initialAgent)) 0) = ''completed''
   \<and> setItemOk testWorld (writes initialAgent)
   \<and> loadHistory (localStorage (state_of (startResearch testWorld ''AI'' ''basic'' initialAgent)))
       = Inr (map (heap (state_of (runToPrepend testWorld ''AI'' ''basic'' initialAgent)))
                (nextAddr initialAgent # researchHistory initialAgent))"
proof (rule run_completed[OF refl, where s = initialAgent and w = testWorld and tp = "''AI''"
      and dp = "''basic''"], goal_cases)
  case (1 raw res e)
  note fin = 1(1) and nxt = 1(4) and st = 1(7)
  have n: "nextAddr initialAgent = 0" by (simp add: initialAgent_def)
  have ok: "setItemOk testWorld (writes initialAgent)" by (simp add: testWorld_def)
  have E: "state_of (startResearch testWorld ''AI'' ''basic'' initialAgent) = e"
    using fin by simp
  have pos: "(0::nat) < nextAddr e" using nxt by simp
  note T = record_after_prepend[of testWorld "''AI''" "''basic''" initialAgent 0 e testWorld
      "''ML''" "''detailed''"]
  have imp: "0 < nextAddr e \<longrightarrow> heap (state_of (handleSubmit testWorld ''ML'' ''detailed'' e)) 0 = heap e 0"
    by (rule T[THEN conjunct2, THEN conjunct2, THEN conjunct2, THEN conjunct2, THEN conjunct2,
          THEN conjunct2, THEN conjunct2, THEN conjunct2, THEN conjunct2, THEN conjunct2,
          THEN conjunct2, THEN conjunct1])
  have imp2: "setItemOk testWorld (writes initialAgent)
        \<longrightarrow> loadHistory (localStorage (state_of (startResearch testWorld ''AI'' ''basic'' initialAgent)))
            = Inr (map (heap (state_of (runToPrepend testWorld ''AI'' ''basic'' initialAgent)))
                (nextAddr initialAgent # researchHistory initialAgent))"
    by (rule T[THEN conjunct2, THEN conjunct2, THEN conjunct2, THEN conjunct2, THEN conjunct2,
          THEN conjunct2, THEN conjunct2, THEN conjunct2, THEN conjunct2, THEN conjunct2,
          THEN conjunct2, THEN conjunct2, THEN conjunct2])
  have st0: "status (heap e 0) = ''completed''" using st n by simp
  have h0: "heap (state_of (handleSubmit testWorld ''ML'' ''detailed'' e)) 0 = heap e 0"
    using imp pos by blast
  have ld: "loadHistory (localStorage e)
       = Inr (map (heap (state_of (runToPrepend testWorld ''AI'' ''basic'' initialAgent)))
                (nextAddr initialAgent # researchHistory initialAgent))"
    using imp2 ok unfolding E by blast
  show ?case
    unfolding E by (intro conjI pos h0 st0 ok ld)
qed

text \<open>
  C4 as stated fails: in the run for the topic \<open>AI\<close> the object is in the history
  with status \<open>running\<close>, no \<open>endTime\<close> and progress 60 when it is handed over, and
  the same object, still in the history, has status \<open>completed\<close>, an \<open>endTime\<close> and
  progress 100 at the end of the run.
\<close>

theorem record_written_after_prepend_counterexample:
  "startResearch testWorld ''AI'' ''basic'' initialAgent
     = seq [runToPrepend testWorld ''AI'' ''basic'', runAfterPrepend testWorld] initialAgent
   \<and> researchHistory (state_of (runToPrepend testWorld ''AI'' ''basic'' initialAgent)) = [0]
   \<and> status (heap (state_of (runToPrepend testWorld ''AI'' ''basic'' initialAgent)) 0) = ''running''
   \<and> endTime (heap (state_of (runToPrepend testWorld ''AI'' ''basic'' initialAgent)) 0) = None
   \<and> progress (heap (state_of (runToPrepend testWorld ''AI'' ''basic'' initialAgent)) 0) = 60
   \<and> researchHistory (state_of (startResearch testWorld ''AI'' ''basic'' initialAgent)) = [0]
   \<and> status (heap (state_of (startResearch testWorld ''AI'' ''basic'' initialAgent)) 0) = ''completed''
   \<and> endTime (heap (state_of (startResearch testWorld ''AI'' ''basic'' initialAgent)) 0) \<noteq> None
   \<and> progress (heap (state_of (startResearch testWorld ''AI'' ''basic'' initialAgent)) 0) = 100"
proof (rule prepend_to_end[OF refl, where s = initialAgent and w = testWorld and tp = "''AI''"
      and dp = "''basic''"], goal_cases)
  case (1 p e t)
  note tp = 1(1) and fin = 1(3) and hist = 1(5) and hist' = 1(6) and st = 1(7) and en = 1(8)
    and pg = 1(9) and upd = 1(12)
  have n: "nextAddr initialAgent = 0" and h: "researchHistory initialAgent = []"
    by (simp_all add: initialAgent_def)
  have P: "state_of (runToPrepend testWorld ''AI'' ''basic'' initialAgent) = p" using tp by simp
  have E: "state_of (startResearch testWorld ''AI'' ''basic'' initialAgent) = e" using fin by simp
  have hp: "researchHistory p = [0]" using hist n h by simp
  have he: "researchHistory e = [0]" using hist' hp by simp
  have sp: "status (heap p 0) = ''running''" using st n by simp
  have ep: "endTime (heap p 0) = None" using en n by simp
  have pp: "progress (heap p 0) = 60" using pg n by simp
  have u: "(heap e 0)\<lparr>logs := []\<rparr>
        = (heap p 0)\<lparr>logs := [], currentStep := 5, progress := 100, status := ''completed'',
                      endTime := Some t\<rparr>"
    using upd[of "[]"] n by simp
  have se: "status (heap e 0) = ''completed''"
    using arg_cong[OF u, of status] by simp
  have ee: "endTime (heap e 0) \<noteq> None"
    using arg_cong[OF u, of endTime] by simp
  have pe: "progress (heap e 0) = 100"
    using arg_cong[OF u, of progress] by simp
  show ?case
    unfolding P E by (intro conjI run_cut hp sp ep pp he se ee pe)
qed




end
